theory Spec2Isabelle
  imports Complex_Main "HOL-Library.Sublist"
begin

section \<open>Python values used by the scraper\<close>

text \<open>
  Strings are lists of characters. Exceptions are values: \<open>Exn cls msg\<close> stands for an
  instance of a subclass \<open>cls\<close> of Python's \<open>Exception\<close> whose \<open>str()\<close> is \<open>msg\<close>. A call
  that may raise returns \<open>exn + 'a\<close>, with \<open>Inl\<close> for the raised exception.
  \<open>KeyboardInterrupt\<close> and \<open>SystemExit\<close> are not instances of \<open>Exception\<close> and are outside
  the model.
\<close>

datatype exn = Exn (exn_class: string) (exn_msg: string)

text \<open>\<open>str.lower()\<close> on the ASCII letters; every other character is kept.\<close>

definition lower_char :: "char \<Rightarrow> char" where
  "lower_char c =
     (case map_of (zip ''ABCDEFGHIJKLMNOPQRSTUVWXYZ'' ''abcdefghijklmnopqrstuvwxyz'') c of
        Some d \<Rightarrow> d
      | None \<Rightarrow> c)"

definition lower :: "string \<Rightarrow> string" where
  "lower s = map lower_char s"

text \<open>\<open>p in s\<close> on strings: \<open>p\<close> occurs in \<open>s\<close> as a contiguous block.\<close>

fun str_in :: "string \<Rightarrow> string \<Rightarrow> bool" where
  "str_in p [] = (p = [])"
| "str_in p (c # cs) = (prefix p (c # cs) \<or> str_in p cs)"

text \<open>\<open>any(k in s for k in ks)\<close>.\<close>

definition any_in :: "string list \<Rightarrow> string \<Rightarrow> bool" where
  "any_in ks s = list_ex (\<lambda>k. str_in k s) ks"

text \<open>
  \<open>s.replace(old, new)\<close> for a non-empty \<open>old\<close>: occurrences are replaced from the left and
  do not overlap. The counter is the number of characters of a matched \<open>old\<close> still to skip.
\<close>

fun replace_from :: "string \<Rightarrow> string \<Rightarrow> nat \<Rightarrow> string \<Rightarrow> string" where
  "replace_from old new k [] = []"
| "replace_from old new k (c # cs) =
     (if 0 < k then replace_from old new (k - 1) cs
      else if prefix old (c # cs) then new @ replace_from old new (length old - 1) cs
      else c # replace_from old new 0 cs)"

definition py_replace :: "string \<Rightarrow> string \<Rightarrow> string \<Rightarrow> string" where
  "py_replace old new s = replace_from old new 0 s"

text \<open>\<open>sep.join(xs)\<close>.\<close>

fun join :: "string \<Rightarrow> string list \<Rightarrow> string" where
  "join sep [] = []"
| "join sep [x] = x"
| "join sep (x # y # ys) = x @ sep @ join sep (y # ys)"

section \<open>The URL library\<close>

text \<open>
  \<open>urllib.parse\<close> is not part of the repository: \<open>urlparse\<close> and \<open>urljoin\<close> are parameters.
  Both can raise \<open>ValueError\<close> (for instance on a malformed bracketed host).
\<close>

record parsed_url =
  scheme :: string
  netloc :: string

record urllib =
  urlparse :: "string \<Rightarrow> exn + parsed_url"
  urljoin :: "string \<Rightarrow> string \<Rightarrow> exn + string"

text \<open>
  A stand-in for the library on plain absolute URLs \<open>scheme://host/path\<close>, used to run the
  functions on concrete inputs: the host is the text between \<open>://\<close> and the next
  \<open>/\<close>, \<open>?\<close> or \<open>#\<close>; a reference that is itself absolute is kept, any other is appended to the
  base after a single \<open>/\<close>.
\<close>

fun after_slashes :: "string \<Rightarrow> string option" where
  "after_slashes [] = None"
| "after_slashes (c # cs) =
     (if prefix ''://'' (c # cs) then Some (drop 2 cs) else after_slashes cs)"

definition plain_urlparse :: "string \<Rightarrow> exn + parsed_url" where
  "plain_urlparse u =
     (case after_slashes u of
        None \<Rightarrow> Inr \<lparr>scheme = '''', netloc = ''''\<rparr>
      | Some rest \<Rightarrow>
          Inr \<lparr>scheme = lower (takeWhile (\<lambda>c. c \<noteq> CHR '':'') u),
               netloc = takeWhile (\<lambda>c. c \<notin> set ''/?#'') rest\<rparr>)"

definition plain_urljoin :: "string \<Rightarrow> string \<Rightarrow> exn + string" where
  "plain_urljoin base ref =
     (if after_slashes ref \<noteq> None then Inr ref
      else if prefix ''/'' ref then Inr (base @ ref)
      else Inr (base @ ''/'' @ ref))"

definition plain_urllib :: urllib where
  "plain_urllib = \<lparr>urlparse = plain_urlparse, urljoin = plain_urljoin\<rparr>"

section \<open>Platform detection\<close>

text \<open>\<open>detect_platform(url, html_text)\<close>, webscraper_v7.py lines 305-330.\<close>

definition detect_platform :: "urllib \<Rightarrow> string \<Rightarrow> string \<Rightarrow> exn + string" where
  "detect_platform lib url html_text =
     (case urlparse lib url of
        Inl e \<Rightarrow> Inl e
      | Inr p \<Rightarrow>
          (let host = lower (netloc p);
               html_lower = lower html_text
           in Inr
             (if str_in ''neocities.org'' host then ''Neocities''
              else if str_in ''github.io'' host then ''GitHub Pages''
              else if str_in ''netlify.app'' host then ''Netlify''
              else if str_in ''vercel.app'' host then ''Vercel''
              else if str_in ''wordpress.com'' host \<or> str_in ''wp-content'' html_lower
                then ''WordPress''
              else if str_in ''blogspot.'' host then ''Blogger''
              else if str_in ''wixsite.com'' host then ''Wix''
              else if str_in ''weebly.com'' host then ''Weebly''
              else if str_in ''glitch.me'' host then ''Glitch''
              else if str_in ''replit.dev'' host \<or> str_in ''repl.co'' host then ''Replit''
              else if str_in ''google.com/sites'' html_lower then ''Google Sites''
              else ''Unknown'')))"

text \<open>
  The classifier as the specification words it: an ordered table of rules, each a list of
  signatures on the host or on the body; the first rule with a matching signature gives
  the label, and no match gives \<open>Unknown\<close>.
\<close>

datatype signature = Host string | Body string

fun sig_matches :: "string \<Rightarrow> string \<Rightarrow> signature \<Rightarrow> bool" where
  "sig_matches host body (Host k) = str_in k host"
| "sig_matches host body (Body k) = str_in k body"

fun first_match :: "(signature list \<times> string) list \<Rightarrow> string \<Rightarrow> string \<Rightarrow> string" where
  "first_match [] host body = ''Unknown''"
| "first_match ((sigs, label) # rules) host body =
     (if list_ex (sig_matches host body) sigs then label else first_match rules host body)"

definition platform_rules :: "(signature list \<times> string) list" where
  "platform_rules =
     [([Host ''neocities.org''], ''Neocities''),
      ([Host ''github.io''], ''GitHub Pages''),
      ([Host ''netlify.app''], ''Netlify''),
      ([Host ''vercel.app''], ''Vercel''),
      ([Host ''wordpress.com'', Body ''wp-content''], ''WordPress''),
      ([Host ''blogspot.''], ''Blogger''),
      ([Host ''wixsite.com''], ''Wix''),
      ([Host ''weebly.com''], ''Weebly''),
      ([Host ''glitch.me''], ''Glitch''),
      ([Host ''replit.dev'', Host ''repl.co''], ''Replit''),
      ([Body ''google.com/sites''], ''Google Sites'')]"

section \<open>Language detection\<close>

text \<open>
  \<open>detect_language_profile(text)\<close>, webscraper_v7.py lines 107-153. \<open>langdetect.detect_langs\<close>
  is a parameter: it returns the detected languages with their probabilities or raises.
  Probabilities are real numbers.
\<close>

definition borrowed_words :: "string list" where
  "borrowed_words =
     [''home'', ''about'', ''contact'', ''portfolio'', ''index'', ''welcome'',
      ''update'', ''blog'', ''link'', ''back'', ''gallery'', ''by'', ''from'',
      ''guestbook'', ''shoutbook'', ''pet'', ''webring'', ''webpage'', ''post'',
      ''webmaster'']"

definition strip_borrowed :: "string \<Rightarrow> string" where
  "strip_borrowed text_lower =
     foldl (\<lambda>t w. py_replace ('' '' @ w @ '' '') '' '' t) text_lower borrowed_words"

type_synonym language_profile = "string \<times> real \<times> string \<times> bool"

definition detect_language_profile ::
  "(string \<Rightarrow> exn + (string \<times> real) list) \<Rightarrow> string \<Rightarrow> exn + language_profile" where
  "detect_language_profile detect_langs text =
     (if text = [] \<or> length text < 50 then Inr ('''', 0, '''', False)
      else
        (let text_lower = strip_borrowed (lower (take 8000 text)) in
         case detect_langs text_lower of
           Inl e \<Rightarrow>
             (if exn_class e = ''LangDetectException'' then Inr ('''', 0, '''', False)
              else Inl e)
         | Inr lang_probs \<Rightarrow>
             (let langs_detected = sort_key (\<lambda>lp. - snd lp) lang_probs in
              case langs_detected of
                [] \<Rightarrow> Inl (Exn ''IndexError'' ''list index out of range'')
              | (lang0, confidence) # _ \<Rightarrow>
                  (let all_langs =
                         join '' | '' (map fst (filter (\<lambda>lp. snd lp > 5 / 100) langs_detected));
                       is_multilingual =
                         (length (filter (\<lambda>lp. snd lp > 15 / 100) langs_detected) > 1);
                       primary1 =
                         (if lang0 \<in> set [''sw'', ''pt'', ''no'', ''ca'']
                             \<and> any_in ['' de '', '' la '', '' el '', '' que '', '' los ''] text_lower
                          then ''es'' else lang0);
                       primary_lang =
                         (if primary1 \<notin> set [''es'', ''en'']
                             \<and> any_in ['' the '', '' and '', '' to '', '' of ''] text_lower
                          then ''en'' else primary1)
                   in Inr (primary_lang, confidence, all_langs, is_multilingual)))))"

section \<open>Timestamps\<close>

text \<open>
  \<open>format_datetime_iso(date_str, include_gmt)\<close>, webscraper_v7.py lines 160-199. A
  \<open>datetime\<close> carries its civil fields and its \<open>tzinfo\<close> as an offset from UTC in seconds
  (\<open>None\<close> for a naive value). The two parsers, \<open>datetime.fromisoformat\<close> and
  \<open>email.utils.parsedate_to_datetime\<close>, belong to the standard library and are parameters.
  \<open>astimezone(timezone.utc)\<close> subtracts the offset, which is less than a day in size, and
  raises \<open>OverflowError\<close> when the result leaves the years 1 to 9999. \<open>strftime\<close> writes day,
  month, hour and minute on two digits and the year on four.
\<close>

record datetime =
  year :: nat
  month :: nat
  day :: nat
  hour :: nat
  minute :: nat
  second :: nat
  utcoffset :: "int option"

record datetime_lib =
  fromisoformat :: "string \<Rightarrow> exn + datetime"
  parsedate_to_datetime :: "string \<Rightarrow> exn + datetime"

definition is_leap :: "nat \<Rightarrow> bool" where
  "is_leap y = (y mod 4 = 0 \<and> (y mod 100 \<noteq> 0 \<or> y mod 400 = 0))"

definition days_in_month :: "nat \<Rightarrow> nat \<Rightarrow> nat" where
  "days_in_month y m =
     (if m = 2 then (if is_leap y then 29 else 28)
      else if m \<in> set [4, 6, 9, 11] then 30 else 31)"

definition overflow :: exn where
  "overflow = Exn ''OverflowError'' ''date value out of range''"

definition prev_day :: "datetime \<Rightarrow> exn + datetime" where
  "prev_day d =
     (if 1 < day d then Inr (d\<lparr>day := day d - 1\<rparr>)
      else if 1 < month d
        then Inr (d\<lparr>month := month d - 1, day := days_in_month (year d) (month d - 1)\<rparr>)
      else if 1 < year d then Inr (d\<lparr>year := year d - 1, month := 12, day := 31\<rparr>)
      else Inl overflow)"

definition next_day :: "datetime \<Rightarrow> exn + datetime" where
  "next_day d =
     (if day d < days_in_month (year d) (month d) then Inr (d\<lparr>day := day d + 1\<rparr>)
      else if month d < 12 then Inr (d\<lparr>month := month d + 1, day := 1\<rparr>)
      else if year d < 9999 then Inr (d\<lparr>year := year d + 1, month := 1, day := 1\<rparr>)
      else Inl overflow)"

definition set_clock :: "datetime \<Rightarrow> nat \<Rightarrow> datetime" where
  "set_clock d s =
     d\<lparr>hour := s div 3600, minute := s mod 3600 div 60, second := s mod 60,
       utcoffset := Some 0\<rparr>"

definition astimezone_utc :: "datetime \<Rightarrow> int \<Rightarrow> exn + datetime" where
  "astimezone_utc d off =
     (let s = int (hour d * 3600 + minute d * 60 + second d) - off in
      if s < 0 then
        (case prev_day d of Inl e \<Rightarrow> Inl e | Inr p \<Rightarrow> Inr (set_clock p (nat (s + 86400))))
      else if 86400 \<le> s then
        (case next_day d of Inl e \<Rightarrow> Inl e | Inr n \<Rightarrow> Inr (set_clock n (nat (s - 86400))))
      else Inr (set_clock d (nat s)))"

definition to_utc :: "datetime \<Rightarrow> exn + datetime" where
  "to_utc d =
     (case utcoffset d of
        Some off \<Rightarrow> astimezone_utc d off
      | None \<Rightarrow> Inr (d\<lparr>utcoffset := Some 0\<rparr>))"

definition digit_char :: "nat \<Rightarrow> char" where
  "digit_char n = ''0123456789'' ! (n mod 10)"

definition pad2 :: "nat \<Rightarrow> string" where
  "pad2 n = [digit_char (n div 10), digit_char n]"

definition pad4 :: "nat \<Rightarrow> string" where
  "pad4 n = [digit_char (n div 1000), digit_char (n div 100), digit_char (n div 10), digit_char n]"

definition strftime_dmy_hm :: "datetime \<Rightarrow> string" where
  "strftime_dmy_hm d =
     pad2 (day d) @ ''/'' @ pad2 (month d) @ ''/'' @ pad4 (year d) @ '' '' @
     pad2 (hour d) @ '':'' @ pad2 (minute d)"

definition try_parse :: "(string \<Rightarrow> exn + datetime) \<Rightarrow> string \<Rightarrow> datetime option" where
  "try_parse parser s = (case parser s of Inl e \<Rightarrow> None | Inr d \<Rightarrow> Some d)"

definition parse_datetime :: "datetime_lib \<Rightarrow> string \<Rightarrow> datetime option" where
  "parse_datetime dl date_str =
     (case try_parse (fromisoformat dl) (py_replace ''Z'' ''+00:00'' date_str) of
        Some d \<Rightarrow> Some d
      | None \<Rightarrow> try_parse (parsedate_to_datetime dl) date_str)"

definition format_datetime_iso :: "datetime_lib \<Rightarrow> string \<Rightarrow> bool \<Rightarrow> exn + string" where
  "format_datetime_iso dl date_str include_gmt =
     (if date_str = [] then Inr ''''
      else
        (case parse_datetime dl date_str of
              None \<Rightarrow> Inr date_str
            | Some d \<Rightarrow>
                (case to_utc d of
                   Inl e \<Rightarrow> Inl e
                 | Inr u \<Rightarrow>
                     Inr (if include_gmt then strftime_dmy_hm u @ '' GMT''
                          else strftime_dmy_hm u))))"

text \<open>
  A parser given by a finite table of the strings it accepts: it stands in for the
  library parsers when the functions are run on concrete inputs.
\<close>

definition table_parser :: "(string \<times> datetime) list \<Rightarrow> string \<Rightarrow> exn + datetime" where
  "table_parser tab s =
     (case map_of tab s of
        None \<Rightarrow> Inl (Exn ''ValueError'' ''Invalid date string'')
      | Some d \<Rightarrow> Inr d)"

text \<open>\<open>str.isspace()\<close> on the ASCII range.\<close>

definition is_space :: "char \<Rightarrow> bool" where
  "is_space c = (c \<in> set [CHR '' '', CHR 0x09, CHR 0x0A, CHR 0x0B, CHR 0x0C, CHR 0x0D,
                           CHR 0x1C, CHR 0x1D, CHR 0x1E, CHR 0x1F])"


definition sample_datetime_lib :: datetime_lib where
  "sample_datetime_lib =
     \<lparr>fromisoformat = table_parser
        [(''2021-01-02T10:00:00+02:00'',
          \<lparr>year = 2021, month = 1, day = 2, hour = 10, minute = 0, second = 0,
           utcoffset = Some 7200\<rparr>)],
      parsedate_to_datetime = table_parser
        [(''Mon, 02 Jan 2021 10:00:00 GMT'',
          \<lparr>year = 2021, month = 1, day = 2, hour = 10, minute = 0, second = 0,
           utcoffset = Some 0\<rparr>)]\<rparr>"

section \<open>The parsed document\<close>

text \<open>
  A BeautifulSoup document is a forest of nodes: elements with a name, their attributes
  and their children, text strings and comments. \<open>find_all\<close> lists the elements of a given
  name in document order; \<open>tag.get(k)\<close> reads an attribute.
\<close>

datatype node = Element string "(string \<times> string) list" "node list" | Text string | Comment string

type_synonym soup = "node list"

fun elements :: "node \<Rightarrow> node list" where
  "elements (Element name attrs children) =
     Element name attrs children # concat (map elements children)"
| "elements (Text s) = []"
| "elements (Comment s) = []"

definition soup_elements :: "soup \<Rightarrow> node list" where
  "soup_elements soup = concat (map elements soup)"

fun tag_name :: "node \<Rightarrow> string" where
  "tag_name (Element name attrs children) = name"
| "tag_name (Text s) = ''''"
| "tag_name (Comment s) = ''''"

fun get_attr :: "node \<Rightarrow> string \<Rightarrow> string option" where
  "get_attr (Element name attrs children) k = map_of attrs k"
| "get_attr (Text s) k = None"
| "get_attr (Comment s) k = None"

definition find_all :: "string \<Rightarrow> soup \<Rightarrow> node list" where
  "find_all name soup = filter (\<lambda>t. tag_name t = name) (soup_elements soup)"

text \<open>\<open>a or b\<close> on attribute values, and the truth value of one.\<close>

definition first_truthy :: "string option \<Rightarrow> string option \<Rightarrow> string option" where
  "first_truthy a b = (case a of Some s \<Rightarrow> if s \<noteq> [] then Some s else b | None \<Rightarrow> b)"

definition truthy :: "string option \<Rightarrow> bool" where
  "truthy a = (case a of Some s \<Rightarrow> s \<noteq> [] | None \<Rightarrow> False)"

definition get_or :: "node \<Rightarrow> string \<Rightarrow> string \<Rightarrow> string" where
  "get_or t k dflt = (case get_attr t k of Some v \<Rightarrow> v | None \<Rightarrow> dflt)"

text \<open>\<open>soup.find(name, attrs={k: v})\<close>; the filter \<open>True\<close> asks only that the attribute is present.\<close>

datatype attr_filter = Equals string | Present

fun attr_matches :: "node \<Rightarrow> string \<Rightarrow> attr_filter \<Rightarrow> bool" where
  "attr_matches t k (Equals v) = (get_attr t k = Some v)"
| "attr_matches t k Present = (get_attr t k \<noteq> None)"

definition soup_find :: "soup \<Rightarrow> string \<Rightarrow> string \<Rightarrow> attr_filter \<Rightarrow> node option" where
  "soup_find soup name k f = find (\<lambda>t. attr_matches t k f) (find_all name soup)"

section \<open>Creation date\<close>

text \<open>
  \<open>get_creation_date(url, soup)\<close>, webscraper_v7.py lines 202-236. The Neocities API is a
  parameter: the JSON reply to a GET of the API URL, or the exception of the request. A
  missing key of \<open>info\<close> reads as the empty default of \<open>.get\<close>; a reply without \<open>info\<close> makes
  \<open>js["info"]\<close> raise. Every exception under the \<open>try\<close> is dropped, that of the formatter
  included, and the metadata of the document is scanned instead.
\<close>

record neo_info =
  info_created_at :: string
  info_last_updated :: string
  info_tags :: "string list"

record api_reply =
  api_result :: string
  api_info :: "neo_info option"

definition api_url :: "string \<Rightarrow> string" where
  "api_url sitename = ''https://neocities.org/api/info?sitename='' @ sitename"

definition sitename_of :: "string \<Rightarrow> string" where
  "sitename_of host = takeWhile (\<lambda>c. c \<noteq> CHR ''.'') host"

fun scan_metadata ::
  "datetime_lib \<Rightarrow> soup \<Rightarrow> (string \<times> string \<times> attr_filter) list \<Rightarrow> exn + string option" where
  "scan_metadata dl soup [] = Inr None"
| "scan_metadata dl soup ((name, k, f) # rest) =
     (case soup_find soup name k f of
        None \<Rightarrow> scan_metadata dl soup rest
      | Some t \<Rightarrow>
          (case first_truthy (get_attr t ''content'') (get_attr t ''datetime'') of
             None \<Rightarrow> scan_metadata dl soup rest
           | Some content \<Rightarrow>
               if content \<noteq> []
               then (case format_datetime_iso dl content True of
                       Inl e \<Rightarrow> Inl e
                     | Inr s \<Rightarrow> Inr (Some s))
               else scan_metadata dl soup rest))"

definition creation_tags :: "(string \<times> string \<times> attr_filter) list" where
  "creation_tags =
     [(''meta'', ''name'', Equals ''date''),
      (''meta'', ''property'', Equals ''article:published_time''),
      (''meta'', ''property'', Equals ''og:published_time''),
      (''meta'', ''itemprop'', Equals ''dateCreated''),
      (''time'', ''datetime'', Present)]"

definition neocities_date ::
  "(string \<Rightarrow> exn + api_reply) \<Rightarrow> datetime_lib \<Rightarrow> (neo_info \<Rightarrow> string) \<Rightarrow> string
     \<Rightarrow> string option" where
  "neocities_date api dl field host =
     (if str_in ''neocities.org'' host then
        (case api (api_url (sitename_of host)) of
           Inl e \<Rightarrow> None
         | Inr js \<Rightarrow>
             if api_result js = ''success'' then
               (case api_info js of
                  None \<Rightarrow> None
                | Some info \<Rightarrow>
                    if field info \<noteq> [] then
                      (case format_datetime_iso dl (field info) True of
                         Inl e \<Rightarrow> None
                       | Inr s \<Rightarrow> Some s)
                    else None)
             else None)
      else None)"

definition get_creation_date ::
  "urllib \<Rightarrow> (string \<Rightarrow> exn + api_reply) \<Rightarrow> datetime_lib \<Rightarrow> string \<Rightarrow> soup \<Rightarrow> exn + string" where
  "get_creation_date lib api dl url soup =
     (case urlparse lib url of
        Inl e \<Rightarrow> Inl e
      | Inr p \<Rightarrow>
          (case neocities_date api dl info_created_at (lower (netloc p)) of
             Some s \<Rightarrow> Inr s
           | None \<Rightarrow>
               (case scan_metadata dl soup creation_tags of
                  Inl e \<Rightarrow> Inl e
                | Inr (Some s) \<Rightarrow> Inr s
                | Inr None \<Rightarrow> Inr '''')))"

text \<open>An API that knows the site \<open>foo\<close>, to run the functions on a concrete input.\<close>

definition sample_api :: "string \<Rightarrow> exn + api_reply" where
  "sample_api u =
     (if u = ''https://neocities.org/api/info?sitename=foo''
      then Inr \<lparr>api_result = ''success'',
                api_info = Some \<lparr>info_created_at = ''Mon, 02 Jan 2021 10:00:00 GMT'',
                                  info_last_updated = ''Tue, 03 Jan 2021 11:30:00 GMT'',
                                  info_tags = [''art'', ''personal'']\<rparr>\<rparr>
      else Inl (Exn ''ConnectionError'' ''no such site''))"

section \<open>Media classification\<close>

text \<open>
  \<open>list(dict.fromkeys(xs))\<close>: the keys of a dictionary in insertion order, a key being
  inserted when it is first seen.
\<close>

definition dict_fromkeys :: "'a list \<Rightarrow> 'a list" where
  "dict_fromkeys xs = foldl (\<lambda>d k. if k \<in> set d then d else d @ [k]) [] xs"

text \<open>
  The order the specification asks of a set-valued field: the elements of \<open>xs\<close> at the
  positions where an element occurs for the first time, in the order of \<open>xs\<close>.
\<close>

definition first_occurrences :: "'a list \<Rightarrow> 'a list" where
  "first_occurrences xs = nths xs {i. i < length xs \<and> xs ! i \<notin> set (take i xs)}"

text \<open>\<open>find_gifs(soup, base_url)\<close>, webscraper_v7.py lines 334-343.\<close>

fun gifs_loop :: "urllib \<Rightarrow> string \<Rightarrow> node list \<Rightarrow> string list \<Rightarrow> exn + string list" where
  "gifs_loop lib base_url [] gifs = Inr gifs"
| "gifs_loop lib base_url (img # imgs) gifs =
     (let src = get_or img ''src'' '''' in
      if src = [] then gifs_loop lib base_url imgs gifs
      else
        (case urljoin lib base_url src of
           Inl e \<Rightarrow> Inl e
         | Inr full \<Rightarrow>
             gifs_loop lib base_url imgs
               (if suffix ''.gif'' (lower full) \<or> str_in ''.gif'' (lower full)
                then gifs @ [full] else gifs)))"

definition find_gifs :: "urllib \<Rightarrow> soup \<Rightarrow> string \<Rightarrow> exn + string list" where
  "find_gifs lib soup base_url =
     (case gifs_loop lib base_url (find_all ''img'' soup) [] of
        Inl e \<Rightarrow> Inl e
      | Inr gifs \<Rightarrow> Inr (dict_fromkeys gifs))"

text \<open>
  \<open>int(s)\<close> of a string: surrounding whitespace is dropped, a sign may lead, and the
  digits may be grouped by single underscores; \<open>None\<close> stands for \<open>ValueError\<close>. Digits are
  the ASCII ones.
\<close>

definition py_strip :: "string \<Rightarrow> string" where
  "py_strip s = rev (dropWhile is_space (rev (dropWhile is_space s)))"

definition is_digit :: "char \<Rightarrow> bool" where
  "is_digit c = (c \<in> set ''0123456789'')"

definition digit_value :: "char \<Rightarrow> int" where
  "digit_value c =
     (case map_of (zip ''0123456789'' [0, 1, 2, 3, 4, 5, 6, 7, 8, 9]) c of
        Some v \<Rightarrow> v
      | None \<Rightarrow> 0)"

fun digits_ok :: "string \<Rightarrow> bool" where
  "digits_ok [] = False"
| "digits_ok [c] = is_digit c"
| "digits_ok (c # d # cs) =
     (is_digit c \<and> (if d = CHR ''_'' then digits_ok cs else digits_ok (d # cs)))"

definition decimal_value :: "string \<Rightarrow> int" where
  "decimal_value ds = foldl (\<lambda>n c. 10 * n + digit_value c) 0 (filter is_digit ds)"

definition py_int :: "string \<Rightarrow> int option" where
  "py_int s =
     (let t = py_strip s;
          neg = prefix ''-'' t;
          ds = (if prefix ''-'' t \<or> prefix ''+'' t then tl t else t)
      in if digits_ok ds then Some (if neg then - decimal_value ds else decimal_value ds)
         else None)"

text \<open>
  \<open>find_buttons_and_blinkies(soup, base_url, session)\<close>, webscraper_v7.py lines 345-423.
  The state of the scan is the two lists and the set of URLs already checked. The session
  is optional; what the model keeps of it is the probe of an image's size
  (\<open>session.get\<close> followed by \<open>Image.open(...).size\<close>), which returns the size or raises.
\<close>

record media =
  button_list :: "string list"
  blinkie_list :: "string list"
  checked_urls :: "string list"

definition classify_dims :: "int \<Rightarrow> int \<Rightarrow> string \<Rightarrow> media \<Rightarrow> media" where
  "classify_dims w h url m =
     (if 120 \<le> w \<and> w \<le> 160 \<and> 18 \<le> h \<and> h \<le> 25 then m\<lparr>blinkie_list := blinkie_list m @ [url]\<rparr>
      else if 70 \<le> w \<and> w \<le> 100 \<and> 12 \<le> h \<and> h \<le> 35 then m\<lparr>button_list := button_list m @ [url]\<rparr>
      else m)"

definition classify_by_size :: "string \<Rightarrow> string \<Rightarrow> string \<Rightarrow> media \<Rightarrow> media" where
  "classify_by_size w h url m =
     (case (py_int w, py_int h) of
        (Some wi, Some hi) \<Rightarrow> classify_dims wi hi url m
      | _ \<Rightarrow> m)"

definition basename :: "string \<Rightarrow> string" where
  "basename p = rev (takeWhile (\<lambda>c. c \<noteq> CHR ''/'') (rev p))"

definition button_tokens :: "string list" where
  "button_tokens = [''button'', ''badge'', ''btn'', ''88x31'', ''80x15'']"

definition blinkie_tokens :: "string list" where
  "blinkie_tokens = [''blink'', ''blinkie'', ''150x20'']"

definition classify_by_name :: "string \<Rightarrow> string \<Rightarrow> media \<Rightarrow> media" where
  "classify_by_name src full m =
     (let filename = lower (basename src) in
      if any_in button_tokens filename then m\<lparr>button_list := button_list m @ [full]\<rparr>
      else if any_in blinkie_tokens filename then m\<lparr>blinkie_list := blinkie_list m @ [full]\<rparr>
      else m)"

type_synonym image_probe = "string \<Rightarrow> exn + int \<times> int"

definition probe_size :: "image_probe option \<Rightarrow> string \<Rightarrow> media \<Rightarrow> media" where
  "probe_size session full m =
     (case session of
        None \<Rightarrow> m
      | Some get_size \<Rightarrow>
          if list_ex (\<lambda>ext. suffix ext (lower full)) [''.gif'', ''.png'', ''.jpg'', ''.jpeg'']
          then (case get_size full of Inl e \<Rightarrow> m | Inr (w, h) \<Rightarrow> classify_dims w h full m)
          else m)"

definition img_step ::
  "urllib \<Rightarrow> image_probe option \<Rightarrow> string \<Rightarrow> node \<Rightarrow> media \<Rightarrow> exn + media" where
  "img_step lib session base_url img m =
     (let src = get_or img ''src'' '''' in
      if src = [] then Inr m
      else
        (case urljoin lib base_url src of
           Inl e \<Rightarrow> Inl e
         | Inr full \<Rightarrow>
             if full \<in> set (checked_urls m) then Inr m
             else
               (let m1 = m\<lparr>checked_urls := checked_urls m @ [full]\<rparr>;
                    w = first_truthy (get_attr img ''width'') (get_attr img ''data-width'');
                    h = first_truthy (get_attr img ''height'') (get_attr img ''data-height'')
                in if truthy w \<and> truthy h then Inr (classify_by_size (the w) (the h) full m1)
                   else Inr (classify_by_name src full (probe_size session full m1)))))"

fun img_loop ::
  "urllib \<Rightarrow> image_probe option \<Rightarrow> string \<Rightarrow> node list \<Rightarrow> media \<Rightarrow> exn + media" where
  "img_loop lib session base_url [] m = Inr m"
| "img_loop lib session base_url (img # imgs) m =
     (case img_step lib session base_url img m of
        Inl e \<Rightarrow> Inl e
      | Inr m' \<Rightarrow> img_loop lib session base_url imgs m')"

text \<open>
  \<open>re.search(r"url\(['\"]?(.*?)['\"]?\)", s)\<close>, the value being group 1: after the leftmost
  \<open>url(\<close> that can be completed, an optional quote, then the shortest run of characters
  other than a newline that is followed by an optional quote and \<open>)\<close>.
\<close>

definition is_quote :: "char \<Rightarrow> bool" where
  "is_quote c = (c = CHR 0x27 \<or> c = CHR 0x22)"

fun lazy_group :: "string \<Rightarrow> string option" where
  "lazy_group [] = None"
| "lazy_group (c # cs) =
     (if is_quote c \<and> prefix '')'' cs then Some []
      else if c = CHR '')'' then Some []
      else if c = CHR 0x0A then None
      else map_option (Cons c) (lazy_group cs))"

definition url_group :: "string \<Rightarrow> string option" where
  "url_group rest =
     (case rest of
        [] \<Rightarrow> None
      | q # r \<Rightarrow>
          if is_quote q then (case lazy_group r of Some g \<Rightarrow> Some g | None \<Rightarrow> lazy_group rest)
          else lazy_group rest)"

fun css_url_search :: "string \<Rightarrow> string option" where
  "css_url_search [] = None"
| "css_url_search (c # cs) =
     (if prefix ''url('' (c # cs)
      then (case url_group (drop 3 cs) of Some g \<Rightarrow> Some g | None \<Rightarrow> css_url_search cs)
      else css_url_search cs)"

definition style_step :: "urllib \<Rightarrow> string \<Rightarrow> node \<Rightarrow> media \<Rightarrow> exn + media" where
  "style_step lib base_url tag m =
     (let s = lower (get_or tag ''style'' '''') in
      if str_in ''background'' s \<and> (str_in ''button'' s \<or> str_in ''badge'' s \<or> str_in ''blink'' s)
      then
        (case css_url_search s of
           None \<Rightarrow> Inr m
         | Some g \<Rightarrow>
             (case urljoin lib base_url g of
                Inl e \<Rightarrow> Inl e
              | Inr url_img \<Rightarrow>
                  if str_in ''blink'' s \<or> str_in ''150x20'' s
                  then Inr (m\<lparr>blinkie_list := blinkie_list m @ [url_img]\<rparr>)
                  else Inr (m\<lparr>button_list := button_list m @ [url_img]\<rparr>)))
      else Inr m)"

fun style_loop :: "urllib \<Rightarrow> string \<Rightarrow> node list \<Rightarrow> media \<Rightarrow> exn + media" where
  "style_loop lib base_url [] m = Inr m"
| "style_loop lib base_url (tag # rest) m =
     (case style_step lib base_url tag m of
        Inl e \<Rightarrow> Inl e
      | Inr m' \<Rightarrow> style_loop lib base_url rest m')"

definition find_all_styled :: "soup \<Rightarrow> node list" where
  "find_all_styled soup = filter (\<lambda>t. get_attr t ''style'' \<noteq> None) (soup_elements soup)"

definition find_buttons_and_blinkies ::
  "urllib \<Rightarrow> soup \<Rightarrow> string \<Rightarrow> image_probe option \<Rightarrow> exn + string list \<times> string list" where
  "find_buttons_and_blinkies lib soup base_url session =
     (case img_loop lib session base_url (find_all ''img'' soup)
             \<lparr>button_list = [], blinkie_list = [], checked_urls = []\<rparr> of
        Inl e \<Rightarrow> Inl e
      | Inr m \<Rightarrow>
          (case style_loop lib base_url (find_all_styled soup) m of
             Inl e \<Rightarrow> Inl e
           | Inr m' \<Rightarrow> Inr (dict_fromkeys (button_list m'), dict_fromkeys (blinkie_list m'))))"

section \<open>Sounds\<close>

text \<open>\<open>find_sounds(soup, base_url)\<close>, webscraper_v7.py lines 425-436.\<close>

fun node_children :: "node \<Rightarrow> node list" where
  "node_children (Element name attrs children) = children"
| "node_children (Text s) = []"
| "node_children (Comment s) = []"

definition find_all_in :: "string \<Rightarrow> node \<Rightarrow> node list" where
  "find_all_in name tag = find_all name (node_children tag)"

definition sound_src :: "node \<Rightarrow> string" where
  "sound_src tag =
     (case first_truthy (first_truthy (get_attr tag ''src'') (get_attr tag ''data''))
             (get_attr tag ''value'') of
        Some s \<Rightarrow> s
      | None \<Rightarrow> '''')"

fun sources_loop :: "urllib \<Rightarrow> string \<Rightarrow> node list \<Rightarrow> string list \<Rightarrow> exn + string list" where
  "sources_loop lib base_url [] sounds = Inr sounds"
| "sources_loop lib base_url (s # ss) sounds =
     (if truthy (get_attr s ''src'') then
        (case urljoin lib base_url (the (get_attr s ''src'')) of
           Inl e \<Rightarrow> Inl e
         | Inr u \<Rightarrow> sources_loop lib base_url ss (sounds @ [u]))
      else sources_loop lib base_url ss sounds)"

fun sounds_loop :: "urllib \<Rightarrow> string \<Rightarrow> node list \<Rightarrow> string list \<Rightarrow> exn + string list" where
  "sounds_loop lib base_url [] sounds = Inr sounds"
| "sounds_loop lib base_url (tag # rest) sounds =
     (case (if sound_src tag \<noteq> []
            then (case urljoin lib base_url (sound_src tag) of
                    Inl e \<Rightarrow> Inl e
                  | Inr u \<Rightarrow> Inr (sounds @ [u]))
            else Inr sounds) of
        Inl e \<Rightarrow> Inl e
      | Inr sounds1 \<Rightarrow>
          (case (if tag_name tag = ''audio''
                 then sources_loop lib base_url (find_all_in ''source'' tag) sounds1
                 else Inr sounds1) of
             Inl e \<Rightarrow> Inl e
           | Inr sounds2 \<Rightarrow> sounds_loop lib base_url rest sounds2))"

definition sound_tags :: "string list" where
  "sound_tags = [''audio'', ''embed'', ''bgsound'', ''object'', ''source'']"

definition find_sounds :: "urllib \<Rightarrow> soup \<Rightarrow> string \<Rightarrow> exn + string list" where
  "find_sounds lib soup base_url =
     (case sounds_loop lib base_url
             (filter (\<lambda>t. tag_name t \<in> set sound_tags) (soup_elements soup)) [] of
        Inl e \<Rightarrow> Inl e
      | Inr sounds \<Rightarrow> Inr (dict_fromkeys sounds))"

section \<open>Style extraction\<close>

text \<open>
  \<open>parse_css_for_properties_combined(css_text)\<close>, webscraper_v7.py lines 466-529. The CSS
  parsers and the regular expressions over colours are library code and are parameters:
  \<open>parse_stylesheet\<close> gives the rules of \<open>tinycss2\<close>, each qualified rule with the outcome of
  \<open>parse_declaration_list\<close> on its content (a declaration is its lower-case name and its
  serialized value); \<open>cssutils_parse\<close> gives the rules of \<open>cssutils\<close>, a style rule being its
  properties; \<open>findall_colors\<close> and \<open>search_color\<close> are \<open>re.findall\<close> and \<open>re.search\<close> with the
  two colour patterns.

  The function collects into three Python sets. A set is kept as the list of its elements
  in the order they were added; \<open>list(s)\<close> is \<open>set_order\<close> of that list, the iteration order
  of the hash table, which the language leaves open and which changes with the hash seed
  of the process.
\<close>

datatype css_item = Declaration string string | OtherItem

datatype css_rule = QualifiedRule "exn + css_item list" | OtherRule

datatype cssutils_rule = StyleRule "(string \<times> string) list" | OtherSheetRule

record css_lib =
  parse_stylesheet :: "string \<Rightarrow> exn + css_rule list"
  findall_colors :: "string \<Rightarrow> string list"
  cssutils_parse :: "string \<Rightarrow> exn + cssutils_rule list"
  search_color :: "string \<Rightarrow> string option"
  set_order :: "string list \<Rightarrow> string list"

record css_props =
  css_colors :: "string list"
  css_fonts :: "string list"
  css_cursors :: "string list"
  css_gradients :: bool

definition set_add :: "string \<Rightarrow> string list \<Rightarrow> string list" where
  "set_add x s = (if x \<in> set s then s else s @ [x])"

text \<open>\<open>re.sub(r"/\*.*?\*/", "", css_text, flags=re.DOTALL)\<close>.\<close>

fun comment_end :: "string \<Rightarrow> nat option" where
  "comment_end [] = None"
| "comment_end (c # cs) =
     (if prefix ''*/'' (c # cs) then Some 2 else map_option Suc (comment_end cs))"

fun strip_comments_from :: "nat \<Rightarrow> string \<Rightarrow> string" where
  "strip_comments_from k [] = []"
| "strip_comments_from k (c # cs) =
     (if 0 < k then strip_comments_from (k - 1) cs
      else if prefix ''/*'' (c # cs) then
        (case comment_end (tl cs) of
           Some n \<Rightarrow> strip_comments_from (n + 1) cs
         | None \<Rightarrow> c # strip_comments_from 0 cs)
      else c # strip_comments_from 0 cs)"

definition strip_comments :: "string \<Rightarrow> string" where
  "strip_comments css_text = strip_comments_from 0 css_text"

definition declaration_step :: "css_lib \<Rightarrow> css_item \<Rightarrow> css_props \<Rightarrow> css_props" where
  "declaration_step cl decl p =
     (case decl of
        OtherItem \<Rightarrow> p
      | Declaration name raw \<Rightarrow>
          (let v = lower (py_strip raw);
               p1 = (if any_in [''background'', ''color'', ''border''] name
                     then foldl (\<lambda>q c. q\<lparr>css_colors := set_add (py_strip c) (css_colors q)\<rparr>)
                            (if str_in ''gradient('' v then p\<lparr>css_gradients := True\<rparr> else p)
                            (findall_colors cl v)
                     else p);
               p2 = (if str_in ''font-family'' name \<or> name = ''font''
                     then p1\<lparr>css_fonts :=
                            set_add (py_strip (filter (\<lambda>c. \<not> is_quote c) v)) (css_fonts p1)\<rparr>
                     else p1)
           in if str_in ''cursor'' name \<and> str_in ''url('' v
              then (case css_url_search v of
                      None \<Rightarrow> p2
                    | Some g \<Rightarrow> p2\<lparr>css_cursors := set_add (py_strip g) (css_cursors p2)\<rparr>)
              else p2))"

text \<open>
  The \<open>try\<close> block: the state it reaches, and the exception that ended it if one was
  raised. What was added to the sets before the exception stays there.
\<close>

fun tinycss_loop :: "css_lib \<Rightarrow> css_rule list \<Rightarrow> css_props \<Rightarrow> css_props \<times> exn option" where
  "tinycss_loop cl [] p = (p, None)"
| "tinycss_loop cl (OtherRule # rules) p = tinycss_loop cl rules p"
| "tinycss_loop cl (QualifiedRule (Inl e) # rules) p = (p, Some e)"
| "tinycss_loop cl (QualifiedRule (Inr decls) # rules) p =
     tinycss_loop cl rules (foldl (\<lambda>q d. declaration_step cl d q) p decls)"

definition property_step :: "css_lib \<Rightarrow> string \<times> string \<Rightarrow> css_props \<Rightarrow> css_props" where
  "property_step cl nv p =
     (let name = lower (fst nv);
          val = snd nv;
          p1 = (if name \<in> set [''background'', ''background-color'', ''background-image'']
                then (let q = (if str_in ''gradient('' val then p\<lparr>css_gradients := True\<rparr> else p)
                      in case search_color cl val of
                           None \<Rightarrow> q
                         | Some c \<Rightarrow> q\<lparr>css_colors := set_add c (css_colors q)\<rparr>)
                else p);
          p2 = (if name \<in> set [''font-family'', ''font'']
                then p1\<lparr>css_fonts := set_add val (css_fonts p1)\<rparr> else p1)
      in if str_in ''cursor'' name \<or> str_in ''cursor:'' val
         then p2\<lparr>css_cursors := set_add val (css_cursors p2)\<rparr> else p2)"

fun cssutils_loop :: "css_lib \<Rightarrow> cssutils_rule list \<Rightarrow> css_props \<Rightarrow> css_props" where
  "cssutils_loop cl [] p = p"
| "cssutils_loop cl (OtherSheetRule # rules) p = cssutils_loop cl rules p"
| "cssutils_loop cl (StyleRule props # rules) p =
     cssutils_loop cl rules (foldl (\<lambda>q nv. property_step cl nv q) p props)"

definition parse_css_sets :: "css_lib \<Rightarrow> string \<Rightarrow> exn + css_props" where
  "parse_css_sets cl css_text0 =
     (let css_text = strip_comments css_text0;
          p0 = \<lparr>css_colors = [], css_fonts = [], css_cursors = [], css_gradients = False\<rparr>;
          attempt = (case parse_stylesheet cl css_text of
                       Inl e \<Rightarrow> (p0, Some e)
                     | Inr rules \<Rightarrow> tinycss_loop cl rules p0)
      in case snd attempt of
           None \<Rightarrow> Inr (fst attempt)
         | Some e \<Rightarrow>
             (case cssutils_parse cl css_text of
                Inl e' \<Rightarrow> Inl e'
              | Inr sheet \<Rightarrow> Inr (cssutils_loop cl sheet (fst attempt))))"

definition parse_css_for_properties_combined ::
  "css_lib \<Rightarrow> string \<Rightarrow> exn + string list \<times> string list \<times> string list \<times> bool" where
  "parse_css_for_properties_combined cl css_text =
     (case parse_css_sets cl css_text of
        Inl e \<Rightarrow> Inl e
      | Inr p \<Rightarrow>
          Inr (set_order cl (css_colors p), set_order cl (css_fonts p),
               set_order cl (css_cursors p), css_gradients p))"

text \<open>
  \<open>extract_basic_styles(soup, base_url, session)\<close>, webscraper_v7.py lines 532-579.
  \<open>tag.string\<close> is the single string below a tag, if there is one. The session is used to
  fetch the linked stylesheets: a fetch returns the status, the content type and the text,
  or raises.
\<close>

fun node_string :: "node \<Rightarrow> string option" where
  "node_string (Text s) = Some s"
| "node_string (Comment s) = Some s"
| "node_string (Element name attrs children) =
     (case children of [c] \<Rightarrow> node_string c | _ \<Rightarrow> None)"

record css_response =
  status_code :: nat
  content_type :: string
  body_text :: string

type_synonym css_fetch = "string \<Rightarrow> exn + css_response"

definition is_stylesheet_link :: "node \<Rightarrow> bool" where
  "is_stylesheet_link link =
     (tag_name link = ''link''
      \<and> (case get_attr link ''rel'' of
            None \<Rightarrow> False
          | Some rel \<Rightarrow> rel \<noteq> [] \<and> str_in ''stylesheet'' (lower rel)))"

fun links_loop ::
  "urllib \<Rightarrow> css_fetch \<Rightarrow> string \<Rightarrow> node list \<Rightarrow> string list \<Rightarrow> exn + string list" where
  "links_loop lib fetch base_url [] css_texts = Inr css_texts"
| "links_loop lib fetch base_url (link # links) css_texts =
     (if \<not> truthy (get_attr link ''href'') then links_loop lib fetch base_url links css_texts
      else
        (case urljoin lib base_url (the (get_attr link ''href'')) of
           Inl e \<Rightarrow> Inl e
         | Inr css_url \<Rightarrow>
             links_loop lib fetch base_url links
               (case fetch css_url of
                  Inl e \<Rightarrow> css_texts
                | Inr r \<Rightarrow>
                    if status_code r = 200 \<and> str_in ''text/css'' (content_type r)
                    then css_texts @ [body_text r] else css_texts)))"

definition collect_css :: "urllib \<Rightarrow> css_fetch \<Rightarrow> soup \<Rightarrow> string \<Rightarrow> exn + string" where
  "collect_css lib fetch soup base_url =
     (let inline = map (\<lambda>t. get_or t ''style'' '''') (find_all_styled soup);
          blocks = map (\<lambda>t. the (node_string t))
                     (filter (\<lambda>t. truthy (node_string t)) (find_all ''style'' soup))
      in case links_loop lib fetch base_url (filter is_stylesheet_link (soup_elements soup))
                (inline @ blocks) of
           Inl e \<Rightarrow> Inl e
         | Inr css_texts \<Rightarrow> Inr (join [CHR 0x0A] css_texts))"

definition font_keywords :: "string list" where
  "font_keywords =
     [''comic'', ''courier'', ''times'', ''arial'', ''verdana'', ''georgia'', ''monospace'',
      ''serif'', ''sans-serif'']"

definition strip_quotes :: "string \<Rightarrow> string" where
  "strip_quotes s = rev (dropWhile is_quote (rev (dropWhile is_quote s)))"

definition detect_font_family :: "string list \<Rightarrow> string" where
  "detect_font_family font_list =
     (case font_list of
        [] \<Rightarrow> ''''
      | f # _ \<Rightarrow>
          (case find (\<lambda>k. str_in k (lower (join '' '' font_list))) font_keywords of
             Some k \<Rightarrow> k
           | None \<Rightarrow> strip_quotes (py_strip (takeWhile (\<lambda>c. c \<noteq> CHR '','') f))))"

definition extract_basic_styles ::
  "urllib \<Rightarrow> css_lib \<Rightarrow> css_fetch \<Rightarrow> soup \<Rightarrow> string
     \<Rightarrow> exn + string list \<times> string \<times> bool \<times> string list \<times> string list \<times> bool" where
  "extract_basic_styles lib cl fetch soup base_url =
     (case collect_css lib fetch soup base_url of
        Inl e \<Rightarrow> Inl e
      | Inr css_all \<Rightarrow>
          (case parse_css_for_properties_combined cl css_all of
             Inl e \<Rightarrow> Inl e
           | Inr (bg_colors, fonts, cursors, has_gradients) \<Rightarrow>
               (let font_family = detect_font_family fonts;
                    cursor_custom = (length cursors > 0 \<or> str_in ''cursor:'' css_all)
                in Inr (bg_colors, font_family, cursor_custom, fonts, cursors, has_gradients))))"

text \<open>The three sets hold no element twice.\<close>

definition distinct_props :: "css_props \<Rightarrow> bool" where
  "distinct_props p = (distinct (css_colors p) \<and> distinct (css_fonts p) \<and> distinct (css_cursors p))"

text \<open>
  A style library that knows two stylesheets, to run the functions on concrete inputs. Its
  sets iterate in the reverse of the insertion order, one of the orders a hash table can
  have.
\<close>

definition sample_css_lib :: css_lib where
  "sample_css_lib =
     \<lparr>parse_stylesheet =
        (\<lambda>s. if s = ''a { cursor: pointer }''
               then Inr [QualifiedRule (Inr [Declaration ''cursor'' '' pointer''])]
             else if s = ''a { color: red; background: blue }''
               then Inr [QualifiedRule
                           (Inr [Declaration ''color'' '' red'',
                                 Declaration ''background'' '' blue''])]
             else Inr []),
      findall_colors = (\<lambda>v. if v = ''red'' \<or> v = ''blue'' then [v] else []),
      cssutils_parse = (\<lambda>s. Inr []),
      search_color = (\<lambda>v. None),
      set_order = rev\<rparr>"

definition no_fetch :: css_fetch where
  "no_fetch u = Inl (Exn ''ConnectionError'' ''unreachable'')"

section \<open>Text and metadata\<close>

text \<open>
  \<open>extract_title(soup)\<close> and \<open>extract_meta(soup, name)\<close>, webscraper_v7.py lines 70-88.
\<close>

definition content_of :: "node option \<Rightarrow> string option" where
  "content_of t =
     (case t of
        None \<Rightarrow> None
      | Some m \<Rightarrow> if truthy (get_attr m ''content'') then get_attr m ''content'' else None)"

definition extract_title :: "soup \<Rightarrow> string" where
  "extract_title soup =
     (case find (\<lambda>t. tag_name t = ''title'') (soup_elements soup) of
        Some t \<Rightarrow>
          (if truthy (node_string t) then py_strip (the (node_string t))
           else (case content_of (soup_find soup ''meta'' ''property'' (Equals ''og:title'')) of
                   Some c \<Rightarrow> py_strip c
                 | None \<Rightarrow> ''''))
      | None \<Rightarrow>
          (case content_of (soup_find soup ''meta'' ''property'' (Equals ''og:title'')) of
             Some c \<Rightarrow> py_strip c
           | None \<Rightarrow> ''''))"

definition extract_meta :: "soup \<Rightarrow> string \<Rightarrow> string" where
  "extract_meta soup name =
     (case content_of (soup_find soup ''meta'' ''name'' (Equals name)) of
        Some c \<Rightarrow> py_strip c
      | None \<Rightarrow>
          (case find (\<lambda>m. truthy (get_attr m ''name'')
                           \<and> lower (the (get_attr m ''name'')) = lower name
                           \<and> truthy (get_attr m ''content''))
                  (find_all ''meta'' soup) of
             Some m \<Rightarrow> py_strip (the (get_attr m ''content''))
           | None \<Rightarrow> ''''))"

text \<open>
  \<open>visible_text_from_soup(soup)\<close>, webscraper_v7.py lines 90-101. The function changes
  the document it is given: the listed elements are removed with all they contain, and so
  are the comments. It returns the text, and the model returns the pruned document with
  it, since every later extraction reads that one.
\<close>

definition chrome_tags :: "string list" where
  "chrome_tags =
     [''script'', ''style'', ''noscript'', ''iframe'', ''svg'', ''canvas'', ''header'',
      ''footer'', ''nav'']"

fun prune :: "node \<Rightarrow> node list" where
  "prune (Element name attrs children) =
     (if name \<in> set chrome_tags then []
      else [Element name attrs (concat (map prune children))])"
| "prune (Text s) = [Text s]"
| "prune (Comment s) = []"

fun strings :: "node \<Rightarrow> string list" where
  "strings (Element name attrs children) = concat (map strings children)"
| "strings (Text s) = [s]"
| "strings (Comment s) = []"

definition is_line_break :: "char \<Rightarrow> bool" where
  "is_line_break c = (c \<in> set [CHR 0x0A, CHR 0x0B, CHR 0x0C, CHR 0x0D, CHR 0x1C, CHR 0x1D, CHR 0x1E])"

fun split_lines :: "string \<Rightarrow> string \<Rightarrow> string list" where
  "split_lines cur [] = [cur]"
| "split_lines cur (c # cs) =
     (if is_line_break c then cur # split_lines [] cs else split_lines (cur @ [c]) cs)"

definition visible_text_from_soup :: "soup \<Rightarrow> string \<times> soup" where
  "visible_text_from_soup soup =
     (let pruned = concat (map prune soup);
          text = join [CHR 0x0A] (concat (map strings pruned));
          lines = filter (\<lambda>ln. ln \<noteq> []) (map py_strip (split_lines [] text))
      in (join [CHR 0x0A] lines, pruned))"

section \<open>Last update and tags\<close>

text \<open>
  \<open>get_last_update_date(url, soup)\<close> and \<open>get_neocities_tags(url)\<close>, webscraper_v7.py lines
  238-300. The \<open>HEAD\<close> request is a parameter: it gives the \<open>Last-Modified\<close> header, if the
  response has one, or raises.
\<close>

definition update_tags :: "(string \<times> string \<times> attr_filter) list" where
  "update_tags =
     [(''meta'', ''property'', Equals ''article:modified_time''),
      (''meta'', ''property'', Equals ''og:updated_time''),
      (''meta'', ''itemprop'', Equals ''dateModified''),
      (''meta'', ''name'', Equals ''last-modified''),
      (''time'', ''itemprop'', Equals ''dateModified'')]"

definition get_last_update_date ::
  "urllib \<Rightarrow> (string \<Rightarrow> exn + api_reply) \<Rightarrow> datetime_lib \<Rightarrow> (string \<Rightarrow> exn + string option)
     \<Rightarrow> string \<Rightarrow> soup \<Rightarrow> exn + string" where
  "get_last_update_date lib api dl head url soup =
     (case urlparse lib url of
        Inl e \<Rightarrow> Inl e
      | Inr p \<Rightarrow>
          (case neocities_date api dl info_last_updated (lower (netloc p)) of
             Some s \<Rightarrow> Inr s
           | None \<Rightarrow>
               (case scan_metadata dl soup update_tags of
                  Inl e \<Rightarrow> Inl e
                | Inr (Some s) \<Rightarrow> Inr s
                | Inr None \<Rightarrow>
                    (case head url of
                       Inl e \<Rightarrow> Inr ''''
                     | Inr None \<Rightarrow> Inr ''''
                     | Inr (Some lm) \<Rightarrow>
                         (case format_datetime_iso dl lm True of
                            Inl e \<Rightarrow> Inr ''''
                          | Inr s \<Rightarrow> Inr s)))))"

definition get_neocities_tags ::
  "urllib \<Rightarrow> (string \<Rightarrow> exn + api_reply) \<Rightarrow> string \<Rightarrow> exn + string list" where
  "get_neocities_tags lib api url =
     (case urlparse lib url of
        Inl e \<Rightarrow> Inl e
      | Inr p \<Rightarrow>
          (let host = lower (netloc p) in
           if \<not> str_in ''neocities.org'' host then Inr []
           else
             (case api (api_url (sitename_of host)) of
                Inl e \<Rightarrow> Inr []
              | Inr js \<Rightarrow>
                  if api_result js = ''success''
                  then (case api_info js of None \<Rightarrow> Inr [] | Some info \<Rightarrow> Inr (info_tags info))
                  else Inr [])))"

section \<open>Politeness and fetching\<close>

text \<open>
  \<open>can_fetch_url(url)\<close>, \<open>get_root_url(url)\<close> and \<open>fetch_url(url, session)\<close>, webscraper_v7.py
  lines 48-68. Reading \<open>robots.txt\<close> is a parameter: it gives the decision procedure of
  the parsed file (\<open>rp.can_fetch\<close>) or raises. A GET gives a response, whose
  \<open>raise_for_status\<close> raises or returns, or raises itself.
\<close>

definition USER_AGENT :: string where
  "USER_AGENT = ''IndieScraper/1.0 (+https://example.com)''"

type_synonym robots_reader = "string \<Rightarrow> exn + (string \<Rightarrow> string \<Rightarrow> exn + bool)"

definition can_fetch_url :: "urllib \<Rightarrow> robots_reader \<Rightarrow> string \<Rightarrow> exn + bool" where
  "can_fetch_url lib robots url =
     (case urlparse lib url of
        Inl e \<Rightarrow> Inl e
      | Inr parsed \<Rightarrow>
          (let robots_url = scheme parsed @ ''://'' @ netloc parsed @ ''/robots.txt'' in
           case robots robots_url of
             Inl e \<Rightarrow> Inr True
           | Inr rp_can_fetch \<Rightarrow>
               (case rp_can_fetch USER_AGENT url of
                  Inl e \<Rightarrow> Inr True
                | Inr allowed \<Rightarrow> Inr allowed)))"

definition get_root_url :: "urllib \<Rightarrow> string \<Rightarrow> exn + string" where
  "get_root_url lib url =
     (case urlparse lib url of
        Inl e \<Rightarrow> Inl e
      | Inr p \<Rightarrow> Inr (scheme p @ ''://'' @ netloc p))"

record response =
  resp_text :: string
  status_error :: "exn option"

definition fetch_url :: "(string \<Rightarrow> exn + response) \<Rightarrow> string \<Rightarrow> exn + response" where
  "fetch_url session_get url =
     (case session_get url of
        Inl e \<Rightarrow> Inl e
      | Inr r \<Rightarrow> (case status_error r of Some e \<Rightarrow> Inl e | None \<Rightarrow> Inr r))"

section \<open>Processing a URL\<close>

text \<open>
  \<open>process_url(url, session)\<close>, webscraper_v7.py lines 583-668. The environment holds
  what the function reaches outside the program: the URL library, \<open>robots.txt\<close>, the session
  (page fetch, image probe, stylesheet fetch), the HTML parser, the language detector, the
  date parsers, the Neocities API, the \<open>HEAD\<close> request and the CSS library.
\<close>

record env =
  env_urllib :: urllib
  env_robots :: robots_reader
  env_get :: "string \<Rightarrow> exn + response"
  env_parse_html :: "string \<Rightarrow> exn + soup"
  env_detect_langs :: "string \<Rightarrow> exn + (string \<times> real) list"
  env_datetime :: datetime_lib
  env_api :: "string \<Rightarrow> exn + api_reply"
  env_head :: "string \<Rightarrow> exn + string option"
  env_image_size :: image_probe
  env_css_get :: css_fetch
  env_css :: css_lib

text \<open>
  The record is the dictionary \<open>result\<close>. The key \<open>has_gradients\<close> is not in the initial
  dictionary: it is added by the last assignment of the \<open>try\<close> block, so it is optional.
\<close>

record result =
  url :: string
  title :: string
  meta_description :: string
  "keywords" :: string
  language :: string
  language_confidence :: real
  languages_detected :: string
  multilingual :: bool
  background_colors :: "string list"
  font_family :: string
  font_list :: "string list"
  cursor_custom :: bool
  cursor_links :: "string list"
  has_gif :: bool
  gifs :: "string list"
  has_buttons :: bool
  buttons :: "string list"
  has_blinkies :: bool
  blinkies :: "string list"
  has_sounds :: bool
  sounds :: "string list"
  visible_text :: string
  error :: string
  tags_api :: "string list"
  tag :: string
  created_at :: string
  last_updated :: string
  platform :: string
  has_gradients :: "bool option"

definition new_result :: "string \<Rightarrow> result" where
  "new_result u =
     \<lparr>url = u, title = '''', meta_description = '''', keywords = '''', language = '''',
      language_confidence = 0, languages_detected = '''', multilingual = False,
      background_colors = [], font_family = '''', font_list = [], cursor_custom = False,
      cursor_links = [], has_gif = False, gifs = [], has_buttons = False, buttons = [],
      has_blinkies = False, blinkies = [], has_sounds = False, sounds = [],
      visible_text = '''', error = '''', tags_api = [], tag = '''', created_at = '''',
      last_updated = '''', platform = '''', has_gradients = None\<rparr>"

text \<open>\<open>round(x, 3)\<close> on a real number, a tie going to the even neighbour.\<close>

definition round3 :: "real \<Rightarrow> real" where
  "round3 x =
     (let y = x * 1000; f = \<lfloor>y\<rfloor>; r = y - of_int f
      in of_int (if r < 1 / 2 then f else if 1 / 2 < r then f + 1
                 else if even f then f else f + 1) / 1000)"

text \<open>
  The statements of the \<open>try\<close> block after the document is parsed are run in order: each
  calls an extractor and stores what it returns; the first exception ends the run, and
  what was stored before it stays in the dictionary.
\<close>

definition assign :: "exn + 'a \<Rightarrow> ('a \<Rightarrow> result \<Rightarrow> result) \<Rightarrow> result \<Rightarrow> exn + result" where
  "assign call store res = (case call of Inl e \<Rightarrow> Inl e | Inr v \<Rightarrow> Inr (store v res))"

fun run_steps :: "(result \<Rightarrow> exn + result) list \<Rightarrow> result \<Rightarrow> result \<times> exn option" where
  "run_steps [] res = (res, None)"
| "run_steps (f # fs) res =
     (case f res of Inl e \<Rightarrow> (res, Some e) | Inr res' \<Rightarrow> run_steps fs res')"

definition extraction_steps ::
  "env \<Rightarrow> string \<Rightarrow> string \<Rightarrow> soup \<Rightarrow> string \<Rightarrow> (result \<Rightarrow> exn + result) list" where
  "extraction_steps env u html soup0 base =
     (let lib = env_urllib env;
          text = fst (visible_text_from_soup soup0);
          soup = snd (visible_text_from_soup soup0)
      in [assign (Inr (extract_title soup0)) (\<lambda>v r. r\<lparr>title := v\<rparr>),
          assign (Inr (extract_meta soup0 ''description'')) (\<lambda>v r. r\<lparr>meta_description := v\<rparr>),
          assign (Inr (extract_meta soup0 ''keywords'')) (\<lambda>v r. r\<lparr>keywords := v\<rparr>),
          assign (Inr text) (\<lambda>v r. r\<lparr>visible_text := take 20000 v\<rparr>),
          assign (detect_language_profile (env_detect_langs env) text)
            (\<lambda>(primary_lang, confidence, all_langs, is_multi) r.
               r\<lparr>language := primary_lang, language_confidence := round3 confidence,
                 languages_detected := all_langs, multilingual := is_multi\<rparr>),
          assign (get_creation_date lib (env_api env) (env_datetime env) u soup)
            (\<lambda>v r. r\<lparr>created_at := v\<rparr>),
          assign (get_last_update_date lib (env_api env) (env_datetime env) (env_head env) u soup)
            (\<lambda>v r. r\<lparr>last_updated := v\<rparr>),
          assign (detect_platform lib u html) (\<lambda>v r. r\<lparr>platform := v\<rparr>),
          assign (get_neocities_tags lib (env_api env) u) (\<lambda>v r. r\<lparr>tags_api := v\<rparr>),
          assign (find_gifs lib soup base) (\<lambda>v r. r\<lparr>gifs := v, has_gif := (length v > 0)\<rparr>),
          assign (find_buttons_and_blinkies lib soup base (Some (env_image_size env)))
            (\<lambda>(bs, ks) r.
               r\<lparr>buttons := bs, has_buttons := (length bs > 0),
                 blinkies := ks, has_blinkies := (length ks > 0)\<rparr>),
          assign (find_sounds lib soup base) (\<lambda>v r. r\<lparr>sounds := v, has_sounds := (length v > 0)\<rparr>),
          assign (extract_basic_styles lib (env_css env) (env_css_get env) soup base)
            (\<lambda>(bg_colors, ff, cc, fonts, cursors, hg) r.
               r\<lparr>background_colors := bg_colors, font_family := ff, font_list := fonts,
                 cursor_custom := cc, cursor_links := cursors, has_gradients := Some hg\<rparr>)])"

text \<open>
  The function returns the dictionary. The model returns with it the page URLs that were
  requested with \<open>fetch_url\<close> during the call.
\<close>

definition process_url :: "env \<Rightarrow> string \<Rightarrow> result \<times> string list" where
  "process_url env u =
     (let res0 = new_result u in
      case can_fetch_url (env_urllib env) (env_robots env) u of
        Inl e \<Rightarrow> (res0\<lparr>error := exn_msg e\<rparr>, [])
      | Inr allowed \<Rightarrow>
          if \<not> allowed then (res0\<lparr>error := ''Blocked by robots.txt''\<rparr>, [])
          else
            (case fetch_url (env_get env) u of
               Inl e \<Rightarrow> (res0\<lparr>error := exn_msg e\<rparr>, [u])
             | Inr r \<Rightarrow>
                 (case get_root_url (env_urllib env) u of
                    Inl e \<Rightarrow> (res0\<lparr>error := exn_msg e\<rparr>, [u])
                  | Inr base \<Rightarrow>
                      (case env_parse_html env (resp_text r) of
                         Inl e \<Rightarrow> (res0\<lparr>error := exn_msg e\<rparr>, [u])
                       | Inr soup0 \<Rightarrow>
                           (case run_steps (extraction_steps env u (resp_text r) soup0 base) res0 of
                              (res, None) \<Rightarrow> (res, [u])
                            | (res, Some e) \<Rightarrow> (res\<lparr>error := exn_msg e\<rparr>, [u]))))))"



text \<open>
  An environment to run the functions on concrete inputs: \<open>host.example\<close> serves one page
  and a \<open>robots.txt\<close> that disallows \<open>/private/\<close>; nothing else can be reached.
\<close>

definition sample_robots :: robots_reader where
  "sample_robots robots_url =
     (if robots_url = ''https://host.example/robots.txt''
      then Inr (\<lambda>agent u. Inr (\<not> prefix ''https://host.example/private/'' u))
      else Inl (Exn ''URLError'' ''no route to host''))"

definition sample_env :: env where
  "sample_env =
     \<lparr>env_urllib = plain_urllib,
      env_robots = sample_robots,
      env_get = (\<lambda>u. if u = ''https://host.example/public/page''
                      then Inr \<lparr>resp_text = ''<p>hello</p>'', status_error = None\<rparr>
                      else Inl (Exn ''ConnectionError'' ''connection refused'')),
      env_parse_html = (\<lambda>html. Inr [Element ''p'' [] [Text ''hello'']]),
      env_detect_langs = (\<lambda>t. Inl (Exn ''LangDetectException'' ''No features in text.'')),
      env_datetime = sample_datetime_lib,
      env_api = sample_api,
      env_head = (\<lambda>u. Inr None),
      env_image_size = (\<lambda>u. Inl (Exn ''ConnectionError'' ''connection refused'')),
      env_css_get = no_fetch,
      env_css = sample_css_lib\<rparr>"

text \<open>
  What is known of the iteration order of a set: it lists each element once.
\<close>

definition lists_each_once :: "(string list \<Rightarrow> string list) \<Rightarrow> bool" where
  "lists_each_once order =
     (\<forall>xs. distinct xs \<longrightarrow> distinct (order xs) \<and> set (order xs) = set xs)"

text \<open>No set-valued field of a record holds an entry twice.\<close>

definition distinct_fields :: "result \<Rightarrow> bool" where
  "distinct_fields r =
     (distinct (gifs r) \<and> distinct (buttons r) \<and> distinct (blinkies r) \<and> distinct (sounds r)
      \<and> distinct (background_colors r) \<and> distinct (font_list r) \<and> distinct (cursor_links r))"

section \<open>Colour palette\<close>

text \<open>
  \<open>extract_colors(image_path, n_colors)\<close>, visualscraper_v2.py lines 67-82. Loading the
  image and resizing it to 150 by 150 gives its pixels or raises; \<open>KMeans(...).fit\<close> gives the
  cluster centres and the label of every pixel, or raises (as it does for \<open>n_clusters = 0\<close>).
  Both are parameters. Centres and proportions are real numbers, so a sum of proportions
  is exact where the program's floating-point sum is rounded.
\<close>

type_synonym pixel = "nat \<times> nat \<times> nat"

type_synonym centre = "real \<times> real \<times> real"

record vision =
  load_pixels :: "string \<Rightarrow> exn + pixel list"
  kmeans_fit :: "pixel list \<Rightarrow> nat \<Rightarrow> exn + centre list \<times> nat list"

text \<open>\<open>"%02x" % int(c)\<close> for a component between 0 and 255.\<close>

definition hex_digit :: "nat \<Rightarrow> char" where
  "hex_digit n = ''0123456789abcdef'' ! (n mod 16)"

definition hex2 :: "real \<Rightarrow> string" where
  "hex2 c = (let v = nat \<lfloor>c\<rfloor> in [hex_digit (v div 16), hex_digit v])"

definition hex_color :: "centre \<Rightarrow> string" where
  "hex_color c = (case c of (r, g, b) \<Rightarrow> ''#'' @ hex2 r @ hex2 g @ hex2 b)"

text \<open>
  \<open>np.bincount(labels)\<close>: the number of occurrences of each value from 0 to the largest
  label; the array is empty when there is no label.
\<close>

definition bincount :: "nat list \<Rightarrow> nat list" where
  "bincount labels =
     (if labels = [] then [] else map (count_list labels) [0..<Suc (Max (set labels))])"

definition proportions_of :: "nat list \<Rightarrow> real list" where
  "proportions_of labels =
     (let counts = bincount labels; total = sum_list counts
      in map (\<lambda>c. real c / real total) counts)"

definition extract_colors :: "vision \<Rightarrow> string \<Rightarrow> nat \<Rightarrow> exn + string list \<times> real list" where
  "extract_colors vis image_path n_colors =
     (case load_pixels vis image_path of
        Inl e \<Rightarrow> Inl e
      | Inr img_data \<Rightarrow>
          (case kmeans_fit vis img_data n_colors of
             Inl e \<Rightarrow> Inl e
           | Inr (centres, labels) \<Rightarrow> Inr (map hex_color centres, proportions_of labels)))"

text \<open>
  An image that is black in its first half and white in the second, and a clustering to
  run the function on it: it refuses zero clusters, as the library does, and otherwise
  labels the black pixels 0 and the white ones with the last cluster.
\<close>

definition sample_vision :: vision where
  "sample_vision =
     \<lparr>load_pixels = (\<lambda>path. Inr (replicate 11250 (0, 0, 0) @ replicate 11250 (255, 255, 255))),
      kmeans_fit = (\<lambda>pixels n.
        if n = 0
        then Inl (Exn ''InvalidParameterError''
                    ''The n_clusters parameter of KMeans must be an int in the range [1, inf).'')
        else Inr ((0, 0, 0) # replicate (n - 1) (255, 255, 255),
                  replicate (length pixels div 2) 0
                    @ replicate (length pixels - length pixels div 2) (n - 1)))\<rparr>"

section \<open>Properties\<close>

subsection \<open>Platform detection\<close>

text \<open>
  Claim C9, as the code has it. Platform classification is an ordered rule match in which
  the first matching rule wins and no match gives \<open>Unknown\<close>. Two rules read the HTML body,
  lower-cased: WordPress looks for \<open>wp-content\<close> and Google Sites for \<open>google.com/sites\<close>.
  Two bodies that agree, after lower-casing, on containing each of these two substrings
  give the same classification of the same URL.
\<close>

theorem detect_platform_ordered_rules:
  "detect_platform lib addr html =
     (case urlparse lib addr of
        Inl e \<Rightarrow> Inl e
      | Inr p \<Rightarrow> Inr (first_match platform_rules (lower (netloc p)) (lower html)))
   \<and> ((str_in ''wp-content'' (lower html) = str_in ''wp-content'' (lower html')
        \<and> str_in ''google.com/sites'' (lower html) = str_in ''google.com/sites'' (lower html'))
       \<longrightarrow> detect_platform lib addr html = detect_platform lib addr html')"
  by (simp add: detect_platform_def platform_rules_def Let_def split: sum.splits)

theorem detect_platform_ordered_rules_witness:
  "detect_platform plain_urllib ''https://blog.example.org/'' ''<link href=/WP-Content/a.css>''
     = Inr ''WordPress''
   \<and> detect_platform plain_urllib ''https://blog.example.org/'' ''<img src=/wp-content/b.png>''
     = Inr ''WordPress''"
proof -
  have same:
    "str_in ''wp-content'' (lower ''<link href=/WP-Content/a.css>'')
       = str_in ''wp-content'' (lower ''<img src=/wp-content/b.png>'')
     \<and> str_in ''google.com/sites'' (lower ''<link href=/WP-Content/a.css>'')
       = str_in ''google.com/sites'' (lower ''<img src=/wp-content/b.png>'')"
    by (simp add: lower_def lower_char_def)
  have one:
    "detect_platform plain_urllib ''https://blog.example.org/'' ''<img src=/wp-content/b.png>''
       = Inr ''WordPress''"
    by (simp add: detect_platform_def plain_urllib_def plain_urlparse_def lower_def
        lower_char_def)
  have eq:
    "detect_platform plain_urllib ''https://blog.example.org/'' ''<link href=/WP-Content/a.css>''
       = detect_platform plain_urllib ''https://blog.example.org/'' ''<img src=/wp-content/b.png>''"
    using detect_platform_ordered_rules
      [of plain_urllib "''https://blog.example.org/''" "''<link href=/WP-Content/a.css>''"
         "''<img src=/wp-content/b.png>''"]
      same
    by blast
  show ?thesis using eq one by simp
qed

text \<open>
  The claim as the specification states it fails: the empty body and the body
  \<open>google.com/sites\<close> agree on not containing \<open>wp-content\<close>, and the same URL is classified
  \<open>Unknown\<close> with the first and \<open>Google Sites\<close> with the second.
\<close>

theorem detect_platform_body_counterexample:
  "str_in ''wp-content'' '''' = str_in ''wp-content'' ''google.com/sites''
   \<and> detect_platform plain_urllib ''http://example.com/'' '''' = Inr ''Unknown''
   \<and> detect_platform plain_urllib ''http://example.com/'' ''google.com/sites''
       = Inr ''Google Sites''"
  by (simp add: detect_platform_def plain_urllib_def plain_urlparse_def lower_def
      lower_char_def)

subsection \<open>Language detection\<close>

text \<open>
  Claim C3. For every text that is empty or shorter than 50 characters,
  \<open>detect_language_profile\<close> returns an empty primary language, confidence 0.0, an empty
  list of detected languages and a false multilingual flag, whatever the detector would
  answer.
\<close>

theorem detect_language_profile_short:
  "length text < 50 \<Longrightarrow> detect_language_profile detect_langs text = Inr ('''', 0, '''', False)"
  by (simp add: detect_language_profile_def)

theorem detect_language_profile_short_witness:
  "length ''hola mundo'' < 50
   \<and> detect_language_profile (\<lambda>t. Inr [(''es'', 1)]) ''hola mundo'' = Inr ('''', 0, '''', False)"
  using detect_language_profile_short [of "''hola mundo''" "\<lambda>t. Inr [(''es'', 1)]"]
  by simp


subsection \<open>Timestamps\<close>

lemma digit_char_cases: "digit_char n \<in> set ''0123456789''"
proof -
  have "n mod 10 < length ''0123456789''" by simp
  then show ?thesis unfolding digit_char_def by (rule nth_mem)
qed

lemma digit_char_neq [simp]:
  "digit_char n \<noteq> CHR ''Z''" "digit_char n \<noteq> CHR ''-''" "\<not> is_space (digit_char n)"
  "CHR ''Z'' \<noteq> digit_char n" "CHR ''-'' \<noteq> digit_char n"
  using digit_char_cases [of n] by (auto simp: is_space_def)


















subsection \<open>Media classification\<close>

lemma dict_fromkeys_snoc:
  "dict_fromkeys (xs @ [x]) =
     (if x \<in> set (dict_fromkeys xs) then dict_fromkeys xs else dict_fromkeys xs @ [x])"
  by (simp add: dict_fromkeys_def)

lemma set_dict_fromkeys: "set (dict_fromkeys xs) = set xs"
  by (induction xs rule: rev_induct) (auto simp: dict_fromkeys_snoc, simp add: dict_fromkeys_def)

lemma distinct_dict_fromkeys: "distinct (dict_fromkeys xs)"
  by (induction xs rule: rev_induct) (simp add: dict_fromkeys_def, simp add: dict_fromkeys_snoc)

lemma nths_agree:
  assumes "\<And>i. i < length xs \<Longrightarrow> (i \<in> A) = (i \<in> B)"
  shows "nths xs A = nths xs B"
proof -
  have "filter (\<lambda>p. snd p \<in> A) (zip xs [0..<length xs])
      = filter (\<lambda>p. snd p \<in> B) (zip xs [0..<length xs])"
    by (rule filter_cong) (auto dest!: set_zip_rightD simp: assms)
  then show ?thesis by (simp add: nths_def)
qed

lemma dict_fromkeys_first_occurrences: "dict_fromkeys xs = first_occurrences xs"
proof (induction xs rule: rev_induct)
  case Nil
  show ?case by (simp add: dict_fromkeys_def first_occurrences_def)
next
  case (snoc x xs)
  let ?A = "{i. i < length (xs @ [x]) \<and> (xs @ [x]) ! i \<notin> set (take i (xs @ [x]))}"
  let ?B = "{i. i < length xs \<and> xs ! i \<notin> set (take i xs)}"
  have a: "nths xs ?A = nths xs ?B"
    by (rule nths_agree) (auto simp: nth_append)
  have b: "nths [x] {j. j + length xs \<in> ?A} = (if x \<in> set xs then [] else [x])"
    by (auto simp: nths_Cons)
  have "first_occurrences (xs @ [x]) = nths xs ?A @ nths [x] {j. j + length xs \<in> ?A}"
    unfolding first_occurrences_def by (rule nths_append)
  also have "\<dots> = first_occurrences xs @ (if x \<in> set xs then [] else [x])"
    unfolding a b by (simp add: first_occurrences_def)
  finally have c: "first_occurrences (xs @ [x])
      = first_occurrences xs @ (if x \<in> set xs then [] else [x])" .
  have "set (first_occurrences xs) = set xs"
    using set_dict_fromkeys [of xs] snoc by simp
  then show ?case
    using snoc c by (simp add: dict_fromkeys_snoc)
qed


















subsection \<open>Style extraction\<close>

lemma distinct_set_add: "distinct s \<Longrightarrow> distinct (set_add x s)"
  by (simp add: set_add_def)

lemma colors_fold_distinct:
  "distinct_props q \<Longrightarrow>
   distinct_props (foldl (\<lambda>q c. q\<lparr>css_colors := set_add (f c) (css_colors q)\<rparr>) q cs)"
  by (induction cs arbitrary: q) (simp_all add: distinct_props_def distinct_set_add)

lemma declaration_step_distinct:
  "distinct_props p \<Longrightarrow> distinct_props (declaration_step cl d p)"
proof (cases d)
  case OtherItem
  then show "distinct_props p \<Longrightarrow> ?thesis" by (simp add: declaration_step_def)
next
  case (Declaration name raw)
  assume p: "distinct_props p"
  let ?v = "lower (py_strip raw)"
  let ?p0 = "if str_in ''gradient('' ?v then p\<lparr>css_gradients := True\<rparr> else p"
  let ?p1 = "if any_in [''background'', ''color'', ''border''] name
             then foldl (\<lambda>q c. q\<lparr>css_colors := set_add (py_strip c) (css_colors q)\<rparr>) ?p0
                    (findall_colors cl ?v)
             else p"
  let ?p2 = "if str_in ''font-family'' name \<or> name = ''font''
             then ?p1\<lparr>css_fonts := set_add (py_strip (filter (\<lambda>c. \<not> is_quote c) ?v)) (css_fonts ?p1)\<rparr>
             else ?p1"
  have "distinct_props ?p0" using p by (simp add: distinct_props_def)
  then have p1: "distinct_props ?p1" using p colors_fold_distinct [of ?p0 py_strip] by simp
  then have p2: "distinct_props ?p2" by (simp add: distinct_props_def distinct_set_add)
  have "declaration_step cl d p =
      (if str_in ''cursor'' name \<and> str_in ''url('' ?v
       then (case css_url_search ?v of
               None \<Rightarrow> ?p2
             | Some g \<Rightarrow> ?p2\<lparr>css_cursors := set_add (py_strip g) (css_cursors ?p2)\<rparr>)
       else ?p2)"
    unfolding Declaration by (simp add: declaration_step_def Let_def)
  then show ?thesis using p2
    by (auto simp: distinct_props_def distinct_set_add split: option.splits)
qed

lemma declarations_fold_distinct:
  "distinct_props p \<Longrightarrow> distinct_props (foldl (\<lambda>q d. declaration_step cl d q) p ds)"
  by (induction ds arbitrary: p) (simp_all add: declaration_step_distinct)

lemma tinycss_loop_distinct:
  "distinct_props p \<Longrightarrow> distinct_props (fst (tinycss_loop cl rules p))"
  by (induction cl rules p rule: tinycss_loop.induct) (simp_all add: declarations_fold_distinct)

lemma property_step_distinct:
  "distinct_props p \<Longrightarrow> distinct_props (property_step cl nv p)"
  by (auto simp: property_step_def Let_def distinct_props_def distinct_set_add
      split: option.splits)

lemma properties_fold_distinct:
  "distinct_props p \<Longrightarrow> distinct_props (foldl (\<lambda>q nv. property_step cl nv q) p props)"
  by (induction props arbitrary: p) (simp_all add: property_step_distinct)

lemma cssutils_loop_distinct:
  "distinct_props p \<Longrightarrow> distinct_props (cssutils_loop cl sheet p)"
  by (induction cl sheet p rule: cssutils_loop.induct) (simp_all add: properties_fold_distinct)

lemma parse_css_sets_distinct:
  assumes "parse_css_sets cl css = Inr p"
  shows "distinct_props p"
proof -
  let ?p0 = "\<lparr>css_colors = [], css_fonts = [], css_cursors = [], css_gradients = False\<rparr>"
  have p0: "distinct_props ?p0" by (simp add: distinct_props_def)
  let ?a = "case parse_stylesheet cl (strip_comments css) of
              Inl e \<Rightarrow> (?p0, Some e)
            | Inr rules \<Rightarrow> tinycss_loop cl rules ?p0"
  have a: "distinct_props (fst ?a)"
    using p0 tinycss_loop_distinct [OF p0] by (simp split: sum.splits)
  from assms have "p = fst ?a \<or> (\<exists>sheet. p = cssutils_loop cl sheet (fst ?a))"
    by (auto simp: parse_css_sets_def Let_def split: option.splits sum.splits)
  then show ?thesis using a cssutils_loop_distinct [OF a] by auto
qed

lemma strip_comments_plain: "CHR ''/'' \<notin> set s \<Longrightarrow> strip_comments_from 0 s = s"
  by (induction s) auto

text \<open>
  Claim C10. The \<open>cursor_custom\<close> flag returned by style extraction is true exactly when
  the list of cursor links is not empty or the combined CSS text contains \<open>cursor:\<close>. A
  stylesheet that declares only \<open>cursor: pointer\<close> gives a true flag and no cursor link.
\<close>

theorem cursor_custom_flag:
  "(collect_css lib fetch soup base = Inr css_all
      \<and> extract_basic_styles lib cl fetch soup base = Inr (bg, ff, cc, fonts, cursors, hg)
    \<longrightarrow> cc = (cursors \<noteq> [] \<or> str_in ''cursor:'' css_all))
   \<and> extract_basic_styles plain_urllib sample_css_lib no_fetch
         [Element ''style'' [] [Text ''a { cursor: pointer }'']] ''http://example.com''
       = Inr ([], '''', True, [], [], False)"
proof
  show "collect_css lib fetch soup base = Inr css_all
      \<and> extract_basic_styles lib cl fetch soup base = Inr (bg, ff, cc, fonts, cursors, hg)
    \<longrightarrow> cc = (cursors \<noteq> [] \<or> str_in ''cursor:'' css_all)"
    by (auto simp: extract_basic_styles_def Let_def split: sum.splits)
next
  have c: "collect_css plain_urllib no_fetch
      [Element ''style'' [] [Text ''a { cursor: pointer }'']] ''http://example.com''
      = Inr ''a { cursor: pointer }''"
    by (simp add: collect_css_def find_all_styled_def find_all_def soup_elements_def
        is_stylesheet_link_def truthy_def)
  have p: "parse_css_for_properties_combined sample_css_lib ''a { cursor: pointer }''
      = Inr ([], [], [], False)"
    by (simp add: parse_css_for_properties_combined_def parse_css_sets_def strip_comments_def
        strip_comments_plain sample_css_lib_def declaration_step_def Let_def any_in_def
        py_strip_def is_space_def lower_def lower_char_def)
  show "extract_basic_styles plain_urllib sample_css_lib no_fetch
         [Element ''style'' [] [Text ''a { cursor: pointer }'']] ''http://example.com''
       = Inr ([], '''', True, [], [], False)"
    by (simp add: extract_basic_styles_def c p detect_font_family_def)
qed

theorem cursor_custom_flag_witness:
  "collect_css plain_urllib no_fetch
      [Element ''p'' [(''style'', ''cursor: pointer'')] []] ''http://example.com''
      = Inr ''cursor: pointer''
   \<and> extract_basic_styles plain_urllib sample_css_lib no_fetch
      [Element ''p'' [(''style'', ''cursor: pointer'')] []] ''http://example.com''
      = Inr ([], '''', True, [], [], False)
   \<and> True = (([] :: string list) \<noteq> [] \<or> str_in ''cursor:'' ''cursor: pointer'')"
proof -
  let ?soup = "[Element ''p'' [(''style'', ''cursor: pointer'')] []]"
  have c: "collect_css plain_urllib no_fetch ?soup ''http://example.com''
      = Inr ''cursor: pointer''"
    by (simp add: collect_css_def find_all_styled_def find_all_def soup_elements_def
        is_stylesheet_link_def truthy_def get_or_def)
  have p: "parse_css_for_properties_combined sample_css_lib ''cursor: pointer''
      = Inr ([], [], [], False)"
    by (simp add: parse_css_for_properties_combined_def parse_css_sets_def strip_comments_def
        strip_comments_plain sample_css_lib_def)
  have e: "extract_basic_styles plain_urllib sample_css_lib no_fetch ?soup ''http://example.com''
      = Inr ([], '''', True, [], [], False)"
    by (simp add: extract_basic_styles_def c p detect_font_family_def)
  from cursor_custom_flag
    [of plain_urllib no_fetch ?soup "''http://example.com''" "''cursor: pointer''"
        sample_css_lib "[]" "''''" True "[]" "[]" False]
    c e
  have "True = (([] :: string list) \<noteq> [] \<or> str_in ''cursor:'' ''cursor: pointer'')"
    by blast
  with c e show ?thesis by blast
qed

subsection \<open>Processing a URL\<close>








text \<open>
  Claim C2. When \<open>robots.txt\<close> was read and disallows the URL, \<open>can_fetch_url\<close> returns false
  and \<open>process_url\<close> returns before the page is requested: no URL was fetched, the \<open>error\<close>
  field holds \<open>Blocked by robots.txt\<close>, and every other field but the URL has the value the
  initial dictionary gives it (the key \<open>has_gradients\<close> is absent).
\<close>

theorem robots_block_short_circuits:
  "urlparse (env_urllib env) u = Inr p
     \<and> env_robots env (scheme p @ ''://'' @ netloc p @ ''/robots.txt'') = Inr rp_can_fetch
     \<and> rp_can_fetch USER_AGENT u = Inr False
   \<longrightarrow> can_fetch_url (env_urllib env) (env_robots env) u = Inr False
       \<and> process_url env u =
          (\<lparr>url = u, title = '''', meta_description = '''', keywords = '''', language = '''',
            language_confidence = 0, languages_detected = '''', multilingual = False,
            background_colors = [], font_family = '''', font_list = [], cursor_custom = False,
            cursor_links = [], has_gif = False, gifs = [], has_buttons = False, buttons = [],
            has_blinkies = False, blinkies = [], has_sounds = False, sounds = [],
            visible_text = '''', error = ''Blocked by robots.txt'', tags_api = [], tag = '''',
            created_at = '''', last_updated = '''', platform = '''', has_gradients = None\<rparr>,
           [])"
  by (simp add: process_url_def can_fetch_url_def new_result_def)

theorem robots_block_short_circuits_witness:
  "process_url sample_env ''https://host.example/private/x'' =
     (\<lparr>url = ''https://host.example/private/x'', title = '''', meta_description = '''',
       keywords = '''', language = '''',
       language_confidence = 0, languages_detected = '''', multilingual = False,
       background_colors = [], font_family = '''', font_list = [], cursor_custom = False,
       cursor_links = [], has_gif = False, gifs = [], has_buttons = False, buttons = [],
       has_blinkies = False, blinkies = [], has_sounds = False, sounds = [],
       visible_text = '''', error = ''Blocked by robots.txt'', tags_api = [], tag = '''',
       created_at = '''', last_updated = '''', platform = '''', has_gradients = None\<rparr>,
      [])"
proof -
  let ?u = "''https://host.example/private/x''"
  let ?p = "\<lparr>scheme = ''https'', netloc = ''host.example''\<rparr>"
  let ?d = "\<lambda>(agent :: string) u. (Inr (\<not> prefix ''https://host.example/private/'' u) :: exn + bool)"
  have "urlparse (env_urllib sample_env) ?u = Inr ?p
     \<and> env_robots sample_env (scheme ?p @ ''://'' @ netloc ?p @ ''/robots.txt'') = Inr ?d
     \<and> ?d USER_AGENT ?u = Inr False"
    by (simp add: sample_env_def plain_urllib_def plain_urlparse_def sample_robots_def
        lower_def lower_char_def)
  with robots_block_short_circuits [of sample_env ?u ?p ?d] show ?thesis by blast
qed

subsection \<open>Set-valued fields\<close>

lemma find_gifs_first_seen:
  assumes "find_gifs lib soup base = Inr gs"
  shows "\<exists>c. gifs_loop lib base (find_all ''img'' soup) [] = Inr c \<and> gs = first_occurrences c"
  using assms
  by (auto simp: find_gifs_def dict_fromkeys_first_occurrences split: sum.splits)

lemma find_sounds_first_seen:
  assumes "find_sounds lib soup base = Inr ss"
  shows "\<exists>c. sounds_loop lib base
               (filter (\<lambda>t. tag_name t \<in> set sound_tags) (soup_elements soup)) [] = Inr c
             \<and> ss = first_occurrences c"
  using assms
  by (auto simp: find_sounds_def dict_fromkeys_first_occurrences split: sum.splits)

lemma find_buttons_first_seen:
  assumes "find_buttons_and_blinkies lib soup base session = Inr (bs, ks)"
  shows "\<exists>m m'. img_loop lib session base (find_all ''img'' soup)
                   \<lparr>button_list = [], blinkie_list = [], checked_urls = []\<rparr> = Inr m
               \<and> style_loop lib base (find_all_styled soup) m = Inr m'
               \<and> bs = first_occurrences (button_list m')
               \<and> ks = first_occurrences (blinkie_list m')"
  using assms
  by (auto simp: find_buttons_and_blinkies_def dict_fromkeys_first_occurrences
      split: sum.splits)

lemma distinct_first_occurrences: "distinct (first_occurrences xs)"
  using distinct_dict_fromkeys [of xs] by (simp add: dict_fromkeys_first_occurrences)

lemma parse_css_distinct:
  assumes "lists_each_once (set_order cl)"
    and "parse_css_for_properties_combined cl css_text = Inr (colors, fonts, cursors, hg)"
  shows "distinct colors \<and> distinct fonts \<and> distinct cursors
     \<and> (\<exists>p. parse_css_sets cl css_text = Inr p
            \<and> set colors = set (css_colors p) \<and> set fonts = set (css_fonts p)
            \<and> set cursors = set (css_cursors p))"
proof -
  from assms(2) obtain p where p: "parse_css_sets cl css_text = Inr p"
    and c: "colors = set_order cl (css_colors p)" "fonts = set_order cl (css_fonts p)"
      "cursors = set_order cl (css_cursors p)"
    by (auto simp: parse_css_for_properties_combined_def split: sum.splits)
  from parse_css_sets_distinct [OF p] assms(1) show ?thesis
    unfolding c by (auto simp: distinct_props_def lists_each_once_def p)
qed

lemma run_steps_invariant:
  assumes "P r" and "\<And>f r r'. f \<in> set fs \<Longrightarrow> P r \<Longrightarrow> f r = Inr r' \<Longrightarrow> P r'"
  shows "P (fst (run_steps fs r))"
  using assms
proof (induction fs arbitrary: r)
  case Nil
  then show ?case by simp
next
  case (Cons f fs)
  show ?case
  proof (cases "f r")
    case (Inl e)
    then show ?thesis using Cons.prems(1) by simp
  next
    case (Inr r1)
    have "P r1" using Cons.prems(2) [of f r r1] Cons.prems(1) Inr by simp
    then have "P (fst (run_steps fs r1))"
      by (rule Cons.IH) (use Cons.prems(2) in auto)
    then show ?thesis using Inr by simp
  qed
qed

lemma extraction_steps_distinct:
  assumes o: "lists_each_once (set_order (env_css env))"
    and f: "f \<in> set (extraction_steps env u html soup0 base)"
    and r: "distinct_fields r" "f r = Inr r'"
  shows "distinct_fields r'"
proof -
  let ?lib = "env_urllib env"
  let ?soup = "snd (visible_text_from_soup soup0)"
  have g: "\<forall>v. find_gifs ?lib ?soup base = Inr v \<longrightarrow> distinct v"
    using find_gifs_first_seen [of ?lib ?soup base] distinct_first_occurrences by auto
  have s: "\<forall>v. find_sounds ?lib ?soup base = Inr v \<longrightarrow> distinct v"
    using find_sounds_first_seen [of ?lib ?soup base] distinct_first_occurrences by auto
  have b: "\<forall>bs ks. find_buttons_and_blinkies ?lib ?soup base (Some (env_image_size env))
        = Inr (bs, ks) \<longrightarrow> distinct bs \<and> distinct ks"
    using find_buttons_first_seen [of ?lib ?soup base "Some (env_image_size env)"]
      distinct_first_occurrences by auto
  have c: "\<forall>bg ff cc fonts cursors hg.
      extract_basic_styles ?lib (env_css env) (env_css_get env) ?soup base
        = Inr (bg, ff, cc, fonts, cursors, hg)
      \<longrightarrow> distinct bg \<and> distinct fonts \<and> distinct cursors"
    using parse_css_distinct [OF o]
    by (auto simp: extract_basic_styles_def Let_def split: sum.splits)
  from f r g s b c show ?thesis
    unfolding extraction_steps_def Let_def
    by (auto simp: assign_def distinct_fields_def split: sum.splits)
qed

lemma process_url_distinct:
  assumes "lists_each_once (set_order (env_css env))"
  shows "distinct_fields (fst (process_url env u))"
proof -
  have n: "distinct_fields (new_result u)" by (simp add: new_result_def distinct_fields_def)
  have e: "distinct_fields (r\<lparr>error := m\<rparr>) = distinct_fields r" for r m
    by (simp add: distinct_fields_def)
  have s: "distinct_fields (fst (run_steps (extraction_steps env u html soup0 base) (new_result u)))"
    for html soup0 base
    by (rule run_steps_invariant [where P = distinct_fields, OF n])
      (rule extraction_steps_distinct [OF assms])
  show ?thesis
    using n s
    by (auto simp: process_url_def Let_def e split: sum.splits prod.splits option.splits)
      (metis fst_conv)+
qed

lemma declaration_step_order:
  "declaration_step (cl\<lparr>set_order := order\<rparr>) d p = declaration_step cl d p"
  by (cases d) (simp_all add: declaration_step_def Let_def cong: option.case_cong if_cong)

lemma tinycss_loop_order:
  "tinycss_loop (cl\<lparr>set_order := order\<rparr>) rules p = tinycss_loop cl rules p"
  by (induction cl rules p rule: tinycss_loop.induct) (simp_all add: declaration_step_order)

lemma property_step_order:
  "property_step (cl\<lparr>set_order := order\<rparr>) nv p = property_step cl nv p"
  by (simp add: property_step_def Let_def cong: option.case_cong if_cong)

lemma cssutils_loop_order:
  "cssutils_loop (cl\<lparr>set_order := order\<rparr>) sheet p = cssutils_loop cl sheet p"
  by (induction cl sheet p rule: cssutils_loop.induct) (simp_all add: property_step_order)

lemma parse_css_sets_order:
  "parse_css_sets (cl\<lparr>set_order := order\<rparr>) css_text = parse_css_sets cl css_text"
  by (simp add: parse_css_sets_def tinycss_loop_order cssutils_loop_order Let_def
      cong: sum.case_cong option.case_cong)

lemma parse_css_other_order:
  assumes "lists_each_once (set_order cl)" "lists_each_once order"
    and "parse_css_for_properties_combined cl css_text = Inr (colors, fonts, cursors, hg)"
  shows "\<exists>colors' fonts' cursors'.
      parse_css_for_properties_combined (cl\<lparr>set_order := order\<rparr>) css_text
        = Inr (colors', fonts', cursors', hg)
      \<and> set colors' = set colors \<and> set fonts' = set fonts \<and> set cursors' = set cursors"
proof -
  from assms(3) obtain p where p: "parse_css_sets cl css_text = Inr p"
    and c: "colors = set_order cl (css_colors p)" "fonts = set_order cl (css_fonts p)"
      "cursors = set_order cl (css_cursors p)" "hg = css_gradients p"
    by (auto simp: parse_css_for_properties_combined_def split: sum.splits)
  have d: "distinct (css_colors p)" "distinct (css_fonts p)" "distinct (css_cursors p)"
    using parse_css_sets_distinct [OF p] by (simp_all add: distinct_props_def)
  have "parse_css_for_properties_combined (cl\<lparr>set_order := order\<rparr>) css_text
      = Inr (order (css_colors p), order (css_fonts p), order (css_cursors p), hg)"
    by (simp add: parse_css_for_properties_combined_def parse_css_sets_order p c)
  moreover have "set (order (css_colors p)) = set colors" "set (order (css_fonts p)) = set fonts"
    "set (order (css_cursors p)) = set cursors"
    using assms(1,2) d unfolding c lists_each_once_def by simp_all
  ultimately show ?thesis by blast
qed

text \<open>
  Claim C8, as the code has it. The media fields \<open>gifs\<close>, \<open>buttons\<close>, \<open>blinkies\<close> and \<open>sounds\<close>
  hold no entry twice and keep the candidates found in the document in first-seen order.
  The style fields \<open>background_colors\<close>, \<open>font_list\<close> and \<open>cursor_links\<close> hold no entry twice
  either, but they are \<open>list(s)\<close> of a Python set \<open>s\<close>: they hold the elements of the set in
  its iteration order, which need not be the first-seen order. No set-valued field of a
  record returned by \<open>process_url\<close> holds an entry twice. Under another iteration order of
  sets (another hash seed) the style fields hold the same elements.
\<close>

theorem set_valued_fields:
  "(find_gifs lib soup base = Inr gs
      \<longrightarrow> distinct gs
        \<and> (\<exists>c. gifs_loop lib base (find_all ''img'' soup) [] = Inr c
               \<and> gs = first_occurrences c))
   \<and> (find_buttons_and_blinkies lib soup base session = Inr (bs, ks)
      \<longrightarrow> distinct bs \<and> distinct ks
        \<and> (\<exists>m m'. img_loop lib session base (find_all ''img'' soup)
                      \<lparr>button_list = [], blinkie_list = [], checked_urls = []\<rparr> = Inr m
                  \<and> style_loop lib base (find_all_styled soup) m = Inr m'
                  \<and> bs = first_occurrences (button_list m')
                  \<and> ks = first_occurrences (blinkie_list m')))
   \<and> (find_sounds lib soup base = Inr ss
      \<longrightarrow> distinct ss
        \<and> (\<exists>c. sounds_loop lib base
                  (filter (\<lambda>t. tag_name t \<in> set sound_tags) (soup_elements soup)) [] = Inr c
               \<and> ss = first_occurrences c))
   \<and> (lists_each_once (set_order cl)
        \<and> parse_css_for_properties_combined cl css_text = Inr (colors, fonts, cursors, hg)
      \<longrightarrow> distinct colors \<and> distinct fonts \<and> distinct cursors
        \<and> (\<exists>p. parse_css_sets cl css_text = Inr p
               \<and> set colors = set (css_colors p) \<and> set fonts = set (css_fonts p)
               \<and> set cursors = set (css_cursors p))
        \<and> (lists_each_once order
           \<longrightarrow> (\<exists>colors' fonts' cursors'.
                  parse_css_for_properties_combined (cl\<lparr>set_order := order\<rparr>) css_text
                    = Inr (colors', fonts', cursors', hg)
                  \<and> set colors' = set colors \<and> set fonts' = set fonts
                  \<and> set cursors' = set cursors)))
   \<and> (lists_each_once (set_order (env_css env)) \<longrightarrow> distinct_fields (fst (process_url env u)))"
proof (intro conjI impI)
  assume "find_gifs lib soup base = Inr gs"
  from find_gifs_first_seen [OF this]
  show "\<exists>c. gifs_loop lib base (find_all ''img'' soup) [] = Inr c \<and> gs = first_occurrences c" .
  then show "distinct gs" using distinct_first_occurrences by auto
next
  assume "find_buttons_and_blinkies lib soup base session = Inr (bs, ks)"
  from find_buttons_first_seen [OF this]
  show e: "\<exists>m m'. img_loop lib session base (find_all ''img'' soup)
                      \<lparr>button_list = [], blinkie_list = [], checked_urls = []\<rparr> = Inr m
                  \<and> style_loop lib base (find_all_styled soup) m = Inr m'
                  \<and> bs = first_occurrences (button_list m')
                  \<and> ks = first_occurrences (blinkie_list m')" .
  from e show "distinct bs" using distinct_first_occurrences by auto
  from e show "distinct ks" using distinct_first_occurrences by auto
next
  assume "find_sounds lib soup base = Inr ss"
  from find_sounds_first_seen [OF this]
  show "\<exists>c. sounds_loop lib base
                  (filter (\<lambda>t. tag_name t \<in> set sound_tags) (soup_elements soup)) [] = Inr c
               \<and> ss = first_occurrences c" .
  then show "distinct ss" using distinct_first_occurrences by auto
next
  assume a: "lists_each_once (set_order cl)
        \<and> parse_css_for_properties_combined cl css_text = Inr (colors, fonts, cursors, hg)"
  then have d: "distinct colors \<and> distinct fonts \<and> distinct cursors
     \<and> (\<exists>p. parse_css_sets cl css_text = Inr p
            \<and> set colors = set (css_colors p) \<and> set fonts = set (css_fonts p)
            \<and> set cursors = set (css_cursors p))"
    using parse_css_distinct by blast
  from d show "distinct colors" "distinct fonts" "distinct cursors" by blast+
  from d show "\<exists>p. parse_css_sets cl css_text = Inr p
               \<and> set colors = set (css_colors p) \<and> set fonts = set (css_fonts p)
               \<and> set cursors = set (css_cursors p)" by blast
  assume "lists_each_once order"
  with a show "\<exists>colors' fonts' cursors'.
                  parse_css_for_properties_combined (cl\<lparr>set_order := order\<rparr>) css_text
                    = Inr (colors', fonts', cursors', hg)
                  \<and> set colors' = set colors \<and> set fonts' = set fonts
                  \<and> set cursors' = set cursors"
    using parse_css_other_order by blast
next
  assume "lists_each_once (set_order (env_css env))"
  then show "distinct_fields (fst (process_url env u))" by (rule process_url_distinct)
qed

text \<open>
  The claim as the specification states it fails for the style fields. In the stylesheet
  \<open>a { color: red; background: blue }\<close> the colour \<open>red\<close> is seen first and \<open>blue\<close> second; with
  a set that iterates in the other order, \<open>background_colors\<close> is \<open>blue\<close>, \<open>red\<close>.
\<close>

theorem style_order_counterexample:
  "parse_css_sets sample_css_lib ''a { color: red; background: blue }''
     = Inr \<lparr>css_colors = [''red'', ''blue''], css_fonts = [], css_cursors = [],
            css_gradients = False\<rparr>
   \<and> parse_css_for_properties_combined sample_css_lib ''a { color: red; background: blue }''
     = Inr ([''blue'', ''red''], [], [], False)
   \<and> [''blue'', ''red''] \<noteq> dict_fromkeys [''red'', ''blue'']
   \<and> lists_each_once (set_order sample_css_lib)"
proof -
  have o: "lists_each_once (set_order sample_css_lib)"
    by (simp add: lists_each_once_def sample_css_lib_def)
  have p: "parse_css_sets sample_css_lib ''a { color: red; background: blue }''
     = Inr \<lparr>css_colors = [''red'', ''blue''], css_fonts = [], css_cursors = [],
            css_gradients = False\<rparr>"
    by (simp add: parse_css_sets_def strip_comments_def strip_comments_plain sample_css_lib_def
        declaration_step_def Let_def any_in_def py_strip_def is_space_def lower_def
        lower_char_def set_add_def)
  show ?thesis
    using o by (simp add: p parse_css_for_properties_combined_def dict_fromkeys_def)
      (simp add: sample_css_lib_def)
qed

theorem set_valued_fields_witness:
  "find_gifs plain_urllib
     [Element ''img'' [(''src'', ''a.gif'')] [], Element ''img'' [(''src'', ''b.gif'')] [],
      Element ''img'' [(''src'', ''a.gif'')] []]
     ''http://example.com''
     = Inr [''http://example.com/a.gif'', ''http://example.com/b.gif'']
   \<and> distinct [''http://example.com/a.gif'', ''http://example.com/b.gif'']
   \<and> distinct_fields (fst (process_url sample_env ''https://host.example/public/page''))"
proof -
  let ?soup = "[Element ''img'' [(''src'', ''a.gif'')] [], Element ''img'' [(''src'', ''b.gif'')] [],
      Element ''img'' [(''src'', ''a.gif'')] []]"
  let ?gs = "[''http://example.com/a.gif'', ''http://example.com/b.gif'']"
  have g: "find_gifs plain_urllib ?soup ''http://example.com'' = Inr ?gs"
    by (simp add: find_gifs_def find_all_def soup_elements_def get_or_def Let_def
        plain_urllib_def plain_urljoin_def lower_def lower_char_def dict_fromkeys_def
        suffix_to_prefix)
  have o: "lists_each_once (set_order (env_css sample_env))"
    by (simp add: lists_each_once_def sample_env_def sample_css_lib_def)
  note inst = set_valued_fields
    [where lib = plain_urllib and soup = ?soup and base = "''http://example.com''"
       and gs = ?gs and env = sample_env and u = "''https://host.example/public/page''"]
  from inst g have "distinct ?gs" by blast
  moreover from inst o
  have "distinct_fields (fst (process_url sample_env ''https://host.example/public/page''))"
    by blast
  ultimately show ?thesis using g by blast
qed

subsection \<open>Colour palette\<close>

lemma sum_bincount:
  assumes "labels \<noteq> []"
  shows "sum_list (bincount labels) = length labels"
proof -
  let ?M = "Max (set labels)"
  have sub: "set labels \<subseteq> {0..<Suc ?M}"
    using Max_ge [of "set labels"] by (auto simp: less_Suc_eq_le)
  have "sum_list (bincount labels) = sum (count_list labels) {0..<Suc ?M}"
    using assms by (simp add: bincount_def interv_sum_list_conv_sum_set_nat)
  also have "\<dots> = length labels"
    using sub by (rule sum_count_set) simp
  finally show ?thesis .
qed

lemma length_bincount:
  "labels \<noteq> [] \<Longrightarrow> length (bincount labels) = Suc (Max (set labels))"
  by (simp add: bincount_def)

lemma sum_list_shares:
  "sum_list (map (\<lambda>c. real c / t) cs) = real (sum_list cs) / t"
  by (induction cs) (simp_all add: add_divide_distrib)

lemma sum_proportions:
  assumes "labels \<noteq> []"
  shows "sum_list (proportions_of labels) = 1"
proof -
  have "sum_list (bincount labels) \<noteq> 0" using sum_bincount [OF assms] assms by simp
  then show ?thesis by (simp add: proportions_of_def Let_def sum_list_shares)
qed

lemma proportions_nonneg: "p \<in> set (proportions_of labels) \<Longrightarrow> 0 \<le> p"
  by (auto simp: proportions_of_def Let_def)

lemma length_proportions:
  assumes "labels \<noteq> []" "\<forall>l \<in> set labels. l < n" "n - 1 \<in> set labels"
  shows "length (proportions_of labels) = n"
proof -
  have "Max (set labels) = n - 1"
  proof (rule Max_eqI)
    show "finite (set labels)" by simp
    show "\<And>y. y \<in> set labels \<Longrightarrow> y \<le> n - 1" using assms(2) by fastforce
    show "n - 1 \<in> set labels" by (rule assms(3))
  qed
  moreover have "0 < n" using assms(1,2) by (cases labels) auto
  ultimately show ?thesis
    using assms(1) by (simp add: proportions_of_def Let_def length_bincount)
qed

lemma count_replicate: "count_list (replicate k x) x = k"
  by (induction k) simp_all

lemma proportions_single_cluster: "0 < k \<Longrightarrow> proportions_of (replicate k 0) = [1]"
  by (simp add: proportions_of_def bincount_def Let_def count_replicate)

text \<open>
  Claim C5, as the code has it. For every image that loads and every colour count for which
  the clustering succeeds, giving one centre per requested colour and a label below the
  count for every pixel, \<open>extract_colors\<close> returns exactly that many hex colours, and
  proportions that are not negative and sum to 1; the sequence of proportions has the same
  length when the last cluster holds a pixel.
\<close>

theorem extract_colors_palette:
  "load_pixels vis path = Inr pixels \<and> kmeans_fit vis pixels n = Inr (centres, labels)
     \<and> length centres = n \<and> labels \<noteq> [] \<and> (\<forall>l \<in> set labels. l < n)
   \<longrightarrow> (\<exists>hex props. extract_colors vis path n = Inr (hex, props)
         \<and> length hex = n \<and> sum_list props = 1 \<and> (\<forall>p \<in> set props. 0 \<le> p)
         \<and> (n - 1 \<in> set labels \<longrightarrow> length props = n))"
proof
  assume a: "load_pixels vis path = Inr pixels \<and> kmeans_fit vis pixels n = Inr (centres, labels)
     \<and> length centres = n \<and> labels \<noteq> [] \<and> (\<forall>l \<in> set labels. l < n)"
  then have r: "extract_colors vis path n = Inr (map hex_color centres, proportions_of labels)"
    by (simp add: extract_colors_def)
  have "length (map hex_color centres) = n" using a by simp
  moreover have "sum_list (proportions_of labels) = 1" using a sum_proportions by blast
  moreover have "\<forall>p \<in> set (proportions_of labels). 0 \<le> p" using proportions_nonneg by blast
  moreover have "n - 1 \<in> set labels \<longrightarrow> length (proportions_of labels) = n"
    using a length_proportions by blast
  ultimately show "\<exists>hex props. extract_colors vis path n = Inr (hex, props)
         \<and> length hex = n \<and> sum_list props = 1 \<and> (\<forall>p \<in> set props. 0 \<le> p)
         \<and> (n - 1 \<in> set labels \<longrightarrow> length props = n)"
    using r by blast
qed

text \<open>
  The claim as the specification states it fails for the colour count 0: the clustering
  raises, and so does \<open>extract_colors\<close>, instead of returning an empty palette.
\<close>

theorem extract_colors_zero_counterexample:
  "extract_colors sample_vision ''shot.png'' 0
     = Inl (Exn ''InvalidParameterError''
              ''The n_clusters parameter of KMeans must be an int in the range [1, inf).'')"
  by (simp add: extract_colors_def sample_vision_def)

theorem extract_colors_palette_witness:
  "\<exists>hex props. extract_colors sample_vision ''shot.png'' 2 = Inr (hex, props)
     \<and> length hex = 2 \<and> sum_list props = 1 \<and> length props = 2"
proof -
  let ?px = "replicate 11250 (0::nat, 0::nat, 0::nat) @ replicate 11250 (255, 255, 255)"
  let ?cs = "[(0::real, 0::real, 0::real), (255, 255, 255)]"
  let ?ls = "replicate 11250 (0::nat) @ replicate 11250 1"
  have h: "load_pixels sample_vision ''shot.png'' = Inr ?px
      \<and> kmeans_fit sample_vision ?px 2 = Inr (?cs, ?ls)
      \<and> length ?cs = 2 \<and> ?ls \<noteq> [] \<and> (\<forall>l \<in> set ?ls. l < 2)"
    by (simp add: sample_vision_def)
  have m: "2 - 1 \<in> set ?ls" by simp
  from extract_colors_palette [of sample_vision "''shot.png''" ?px 2 ?cs ?ls] h m
  show ?thesis by blast
qed

end
